theory Spec2Isabelle
  imports Main
begin

section \<open>Decoded JSON and the Python operations the fetcher applies to it\<close>

text \<open>
  The fetcher works on the value returned by \<^verbatim>\<open>response.json()\<close>: \<^verbatim>\<open>None\<close>, booleans,
  integers, strings, lists and dicts. A dict is kept as the list of its items (keys are
  distinct, as in a Python dict). Fractional numbers do not occur in the fields read
  here and are left out.
\<close>

datatype json =
    JNull
  | JBool bool
  | JNum int
  | JStr string
  | JArr "json list"
  | JObj "(string \<times> json) list"

datatype py_error = AttributeError | TypeError | KeyError | IndexError | ValueError

definition py_bind :: "py_error + 'a \<Rightarrow> ('a \<Rightarrow> py_error + 'b) \<Rightarrow> py_error + 'b" where
  "py_bind m f = (case m of Inl e \<Rightarrow> Inl e | Inr x \<Rightarrow> f x)"

text \<open>\<^verbatim>\<open>if x:\<close> and \<^verbatim>\<open>not x\<close>.\<close>

fun truthy :: "json \<Rightarrow> bool" where
  "truthy JNull = False"
| "truthy (JBool b) = b"
| "truthy (JNum n) = (n \<noteq> 0)"
| "truthy (JStr s) = (s \<noteq> [])"
| "truthy (JArr xs) = (xs \<noteq> [])"
| "truthy (JObj kv) = (kv \<noteq> [])"

text \<open>\<^verbatim>\<open>a or b\<close>.\<close>

definition py_or :: "json \<Rightarrow> json \<Rightarrow> json" where
  "py_or a b = (if truthy a then a else b)"

text \<open>\<^verbatim>\<open>x.get(k, d)\<close>: only a dict has the method.\<close>

fun py_get :: "json \<Rightarrow> string \<Rightarrow> json \<Rightarrow> py_error + json" where
  "py_get (JObj kv) k d = Inr (case map_of kv k of None \<Rightarrow> d | Some v \<Rightarrow> v)"
| "py_get _ k d = Inl AttributeError"

fun is_dict :: "json \<Rightarrow> bool" where
  "is_dict (JObj kv) = True"
| "is_dict _ = False"

text \<open>\<^verbatim>\<open>for x in v\<close>: a list gives its elements, a dict its keys, a string its characters.\<close>

fun py_iter :: "json \<Rightarrow> py_error + json list" where
  "py_iter (JArr xs) = Inr xs"
| "py_iter (JObj kv) = Inr (map (\<lambda>p. JStr (fst p)) kv)"
| "py_iter (JStr s) = Inr (map (\<lambda>c. JStr [c]) s)"
| "py_iter _ = Inl TypeError"

text \<open>\<^verbatim>\<open>v[0]\<close>.\<close>

fun py_index0 :: "json \<Rightarrow> py_error + json" where
  "py_index0 (JArr []) = Inl IndexError"
| "py_index0 (JArr (x # xs)) = Inr x"
| "py_index0 (JStr []) = Inl IndexError"
| "py_index0 (JStr (c # cs)) = Inr (JStr [c])"
| "py_index0 (JObj kv) = Inl KeyError"
| "py_index0 _ = Inl TypeError"

text \<open>\<^verbatim>\<open>v[:n]\<close> is evaluated inside the progress messages; only strings and lists can be sliced.\<close>

fun sliceable :: "json \<Rightarrow> bool" where
  "sliceable (JStr s) = True"
| "sliceable (JArr xs) = True"
| "sliceable _ = False"

text \<open>Numbers as Python compares them: \<^verbatim>\<open>True\<close> is 1 and \<^verbatim>\<open>False\<close> is 0.\<close>

fun num_of :: "json \<Rightarrow> int option" where
  "num_of (JNum n) = Some n"
| "num_of (JBool b) = Some (if b then 1 else 0)"
| "num_of _ = None"

text \<open>\<^verbatim>\<open>a == b\<close>: numbers by value, lists elementwise, dicts key by key in any order.\<close>

fun py_eq :: "json \<Rightarrow> json \<Rightarrow> bool"
  and py_eq_list :: "json list \<Rightarrow> json list \<Rightarrow> bool"
  and py_eq_items :: "(string \<times> json) list \<Rightarrow> (string \<times> json) list \<Rightarrow> bool" where
  "py_eq (JArr xs) (JArr ys) = py_eq_list xs ys"
| "py_eq (JObj a) (JObj b) = (length a = length b \<and> py_eq_items a b)"
| "py_eq a b = (case (num_of a, num_of b) of
      (Some m, Some n) \<Rightarrow> m = n
    | (None, None) \<Rightarrow> a = b
    | _ \<Rightarrow> False)"
| "py_eq_list [] ys = (ys = [])"
| "py_eq_list (x # xs) [] = False"
| "py_eq_list (x # xs) (y # ys) = (py_eq x y \<and> py_eq_list xs ys)"
| "py_eq_items [] b = True"
| "py_eq_items ((k, v) # r) b =
     ((case map_of b k of None \<Rightarrow> False | Some w \<Rightarrow> py_eq v w) \<and> py_eq_items r b)"

text \<open>\<^verbatim>\<open>a < b\<close> on strings: lexicographic on the characters' codes.\<close>

fun str_lt :: "string \<Rightarrow> string \<Rightarrow> bool" where
  "str_lt [] [] = False"
| "str_lt [] (y # ys) = True"
| "str_lt (x # xs) [] = False"
| "str_lt (x # xs) (y # ys) =
     ((of_char x :: nat) < of_char y \<or> (x = y \<and> str_lt xs ys))"

text \<open>
  \<^verbatim>\<open>a > b\<close>: defined between numbers, between strings and between lists (at the first
  pair of unequal elements); every other pairing raises TypeError.
\<close>

fun py_gt :: "json \<Rightarrow> json \<Rightarrow> py_error + bool"
  and py_gt_list :: "json list \<Rightarrow> json list \<Rightarrow> py_error + bool" where
  "py_gt (JStr a) (JStr b) = Inr (str_lt b a)"
| "py_gt (JArr xs) (JArr ys) = py_gt_list xs ys"
| "py_gt a b = (case (num_of a, num_of b) of
      (Some m, Some n) \<Rightarrow> Inr (n < m)
    | _ \<Rightarrow> Inl TypeError)"
| "py_gt_list [] ys = Inr False"
| "py_gt_list (x # xs) [] = Inr True"
| "py_gt_list (x # xs) (y # ys) = (if py_eq x y then py_gt_list xs ys else py_gt x y)"

text \<open>\<^verbatim>\<open>a + b\<close>.\<close>

fun py_add :: "json \<Rightarrow> json \<Rightarrow> py_error + json" where
  "py_add (JStr a) (JStr b) = Inr (JStr (a @ b))"
| "py_add (JArr a) (JArr b) = Inr (JArr (a @ b))"
| "py_add a b = (case (num_of a, num_of b) of
      (Some m, Some n) \<Rightarrow> Inr (JNum (m + n))
    | _ \<Rightarrow> Inl TypeError)"

section \<open>\<^verbatim>\<open>LinkedInActivityFetcher.extract_pagination_token\<close>\<close>

text \<open>
  Any exception is caught and gives \<^verbatim>\<open>None\<close> (here \<open>JNull\<close>). A truthy token is sliced for
  the progress message before it is returned, so a truthy token that cannot be sliced
  ends in the handler.
\<close>

definition extract_pagination_token :: "json \<Rightarrow> json" where
  "extract_pagination_token activity_data =
     (case py_bind (py_get activity_data ''data'' (JObj [])) (\<lambda>d1.
           py_bind (py_get d1 ''data'' (JObj [])) (\<lambda>d2.
           py_bind (py_get d2 ''feedDashProfileUpdatesByMemberShareFeed'' (JObj [])) (\<lambda>feed.
           py_bind (py_get feed ''metadata'' (JObj [])) (\<lambda>metadata.
           py_bind (py_get metadata ''paginationToken'' JNull) (\<lambda>token.
             if truthy token then (if sliceable token then Inr token else Inl TypeError)
             else Inr JNull))))) of
        Inl e \<Rightarrow> JNull
      | Inr token \<Rightarrow> token)"

section \<open>\<^verbatim>\<open>LinkedInActivityFetcher.extract_video_url\<close>\<close>

text \<open>The lookup loop over \<^verbatim>\<open>included\<close>: the first entity whose \<^verbatim>\<open>entityUrn\<close> equals the reference.\<close>

fun find_video_metadata :: "json \<Rightarrow> json list \<Rightarrow> py_error + json" where
  "find_video_metadata video_ref [] = Inr JNull"
| "find_video_metadata video_ref (inc_item # rest) =
     py_bind (py_get inc_item ''entityUrn'' JNull) (\<lambda>u.
       if py_eq u video_ref then Inr inc_item else find_video_metadata video_ref rest)"

text \<open>
  The loop over \<^verbatim>\<open>progressiveStreams\<close>, carrying
  \<^verbatim>\<open>(video_url_640p, video_url_720p, video_url_fallback)\<close>.
\<close>

fun scan_streams :: "json list \<Rightarrow> json \<times> json \<times> json \<Rightarrow> py_error + (json \<times> json \<times> json)" where
  "scan_streams [] acc = Inr acc"
| "scan_streams (stream # rest) (video_url_640p, video_url_720p, video_url_fallback) =
     py_bind (py_get stream ''width'' (JNum 0)) (\<lambda>width.
     py_bind (py_get stream ''height'' (JNum 0)) (\<lambda>height.
     py_bind (py_get stream ''streamingLocations'' (JArr [])) (\<lambda>streaming_locations.
       if \<not> truthy streaming_locations
       then scan_streams rest (video_url_640p, video_url_720p, video_url_fallback)
       else
         py_bind (py_index0 streaming_locations) (\<lambda>loc.
         py_bind (py_get loc ''url'' (JStr [])) (\<lambda>url.
           if \<not> truthy url
           then scan_streams rest (video_url_640p, video_url_720p, video_url_fallback)
           else scan_streams rest
             (if py_eq width (JNum 640) \<or> py_eq height (JNum 640) then url else video_url_640p,
              if py_eq width (JNum 720) \<or> py_eq height (JNum 720) then url else video_url_720p,
              if \<not> truthy video_url_fallback then url else video_url_fallback))))))"

definition extract_video_url :: "json \<Rightarrow> json \<Rightarrow> bool \<Rightarrow> json" where
  "extract_video_url item included prefer_640p =
     (case py_bind (py_get item ''content'' (JObj [])) (\<lambda>content.
           py_bind (py_get content ''linkedInVideoComponent'' (JObj [])) (\<lambda>video_component.
           py_bind (py_get video_component ''*videoPlayMetadata'' (JStr [])) (\<lambda>video_ref.
             if \<not> truthy video_ref then Inr (JStr [])
             else
               py_bind (py_iter included) (\<lambda>inc.
               py_bind (find_video_metadata video_ref inc) (\<lambda>video_metadata.
                 if \<not> truthy video_metadata then Inr (JStr [])
                 else
                   py_bind (py_get video_metadata ''progressiveStreams'' (JArr [])) (\<lambda>progressive_streams.
                     if \<not> truthy progressive_streams then Inr (JStr [])
                     else
                       py_bind (py_iter progressive_streams) (\<lambda>streams.
                       py_bind (scan_streams streams (JStr [], JStr [], JStr [])) (\<lambda>(u640, u720, fb).
                         if prefer_640p then Inr (py_or (py_or u640 u720) fb)
                         else Inr (py_or (py_or u720 u640) fb))))))))) of
        Inl e \<Rightarrow> JStr []
      | Inr url \<Rightarrow> url)"

section \<open>\<^verbatim>\<open>LinkedInActivityFetcher.extract_image_urls\<close>\<close>

text \<open>
  \<^verbatim>\<open>max(artifacts, key=lambda x: x.get('width', 0))\<close>: the running maximum is replaced
  only by an element whose key is strictly greater.
\<close>

fun max_loop :: "json \<Rightarrow> json \<Rightarrow> json list \<Rightarrow> py_error + json" where
  "max_loop best best_key [] = Inr best"
| "max_loop best best_key (x # xs) =
     py_bind (py_get x ''width'' (JNum 0)) (\<lambda>k.
     py_bind (py_gt k best_key) (\<lambda>g.
       if g then max_loop x k xs else max_loop best best_key xs))"

definition max_by_width :: "json \<Rightarrow> py_error + json" where
  "max_by_width artifacts =
     py_bind (py_iter artifacts) (\<lambda>xs.
       case xs of
         [] \<Rightarrow> Inl ValueError
       | x # rest \<Rightarrow> py_bind (py_get x ''width'' (JNum 0)) (\<lambda>k. max_loop x k rest))"

text \<open>
  The body of the loop over \<^verbatim>\<open>images\<close>: \<open>Inr None\<close> is a \<^verbatim>\<open>continue\<close>, \<open>Inl\<close> an
  exception, which the inner handler turns into a \<^verbatim>\<open>continue\<close> as well.
\<close>

definition image_url :: "json \<Rightarrow> py_error + json option" where
  "image_url img =
     py_bind (py_get img ''attributes'' (JArr [])) (\<lambda>attributes.
       if \<not> truthy attributes then Inr None
       else
         py_bind (py_index0 attributes) (\<lambda>attr0.
         py_bind (py_get attr0 ''detailData'' (JObj [])) (\<lambda>detail_data.
         py_bind (py_get detail_data ''vectorImage'' (JObj [])) (\<lambda>vector_image.
         py_bind (py_get vector_image ''rootUrl'' (JStr [])) (\<lambda>root_url.
         py_bind (py_get vector_image ''artifacts'' (JArr [])) (\<lambda>artifacts.
           if \<not> truthy root_url \<or> \<not> truthy artifacts then Inr None
           else
             py_bind (max_by_width artifacts) (\<lambda>best_artifact.
             py_bind (py_get best_artifact ''fileIdentifyingUrlPathSegment'' (JStr [])) (\<lambda>file_segment.
               if \<not> truthy file_segment then Inr None
               else py_bind (py_add root_url file_segment) (\<lambda>complete_url.
                 Inr (Some complete_url))))))))))"

fun image_loop :: "json list \<Rightarrow> json list" where
  "image_loop [] = []"
| "image_loop (img # rest) =
     (case image_url img of
        Inr (Some u) \<Rightarrow> u # image_loop rest
      | _ \<Rightarrow> image_loop rest)"

definition extract_image_urls :: "json \<Rightarrow> json list" where
  "extract_image_urls item =
     (case py_bind (py_get item ''content'' (JObj [])) (\<lambda>content.
           py_bind (py_get content ''imageComponent'' (JObj [])) (\<lambda>image_component.
           py_bind (py_get image_component ''images'' (JArr [])) (\<lambda>images.
             if \<not> truthy images then Inr []
             else py_bind (py_iter images) (\<lambda>imgs. Inr (image_loop imgs))))) of
        Inl e \<Rightarrow> []
      | Inr urls \<Rightarrow> urls)"

section \<open>\<^verbatim>\<open>LinkedInActivityFetcher.extract_posts_from_response\<close>\<close>

text \<open>The dict \<^verbatim>\<open>post_info\<close> built for one post; \<^verbatim>\<open>image_urls\<close> is a list, \<^verbatim>\<open>post_order\<close> a number.\<close>

record post =
  entity_urn :: json
  activity_urn :: json
  share_urn :: json
  post_text :: json
  post_url :: json
  author_profile_urn :: json
  author_name :: json
  author_headline :: json
  author_profile_url :: json
  video_url_640p :: json
  image_urls :: "json list"
  post_order :: int

text \<open>
  \<^verbatim>\<open>post_lookup\<close> is a dict keyed by decoded JSON values. Lists and dicts cannot be keys
  (TypeError); \<^verbatim>\<open>True\<close> and \<^verbatim>\<open>1\<close> are the same key.
\<close>

fun hashable :: "json \<Rightarrow> bool" where
  "hashable (JArr xs) = False"
| "hashable (JObj kv) = False"
| "hashable _ = True"

fun dict_key :: "json \<Rightarrow> json" where
  "dict_key (JBool b) = JNum (if b then 1 else 0)"
| "dict_key j = j"

definition update_type :: string where
  "update_type = ''com.linkedin.voyager.dash.feed.Update''"

text \<open>The loop that fills \<^verbatim>\<open>post_lookup\<close> from \<^verbatim>\<open>included\<close>.\<close>

fun build_lookup :: "json list \<Rightarrow> (json \<rightharpoonup> json) \<Rightarrow> py_error + (json \<rightharpoonup> json)" where
  "build_lookup [] post_lookup = Inr post_lookup"
| "build_lookup (item # rest) post_lookup =
     py_bind (py_get item ''$type'' JNull) (\<lambda>t.
       if py_eq t (JStr update_type)
       then
         py_bind (py_get item ''entityUrn'' (JStr [])) (\<lambda>urn.
           if truthy urn
           then (if hashable urn
                 then build_lookup rest (post_lookup(dict_key urn \<mapsto> item))
                 else Inl TypeError)
           else build_lookup rest post_lookup)
       else build_lookup rest post_lookup)"

text \<open>The \<^verbatim>\<open>try: ... except: pass\<close> block that reads the author's profile reference.\<close>

definition author_profile_ref :: "json \<Rightarrow> json" where
  "author_profile_ref actor =
     (case py_bind (py_get actor ''image'' (JObj [])) (\<lambda>img.
           py_bind (py_get img ''attributes'' (JArr [])) (\<lambda>attributes.
             if truthy attributes
             then
               py_bind (py_index0 attributes) (\<lambda>attr0.
               py_bind (py_get attr0 ''detailData'' (JObj [])) (\<lambda>detail_data.
               py_bind (py_get detail_data ''nonEntityProfilePicture'' (JObj [])) (\<lambda>non_entity_profile.
               py_bind (py_get non_entity_profile ''*profile'' (JStr [])) (\<lambda>profile_ref.
                 if truthy profile_ref then Inr profile_ref else Inr (JStr [])))))
             else Inr (JStr []))) of
        Inl e \<Rightarrow> JStr []
      | Inr v \<Rightarrow> v)"

text \<open>\<^verbatim>\<open>x.get('text', '') if isinstance(x, dict) else ''\<close>.\<close>

definition dict_text :: "json \<Rightarrow> py_error + json" where
  "dict_text x = (if is_dict x then py_get x ''text'' (JStr []) else Inr (JStr []))"

text \<open>The body of the loop over \<^verbatim>\<open>*elements\<close> for an element found in \<^verbatim>\<open>post_lookup\<close>.\<close>

definition post_info_of :: "json \<Rightarrow> json \<Rightarrow> int \<Rightarrow> py_error + post" where
  "post_info_of item included idx =
     py_bind (py_get item ''entityUrn'' (JStr [])) (\<lambda>e_urn.
     py_bind (py_get item ''metadata'' (JObj [])) (\<lambda>metadata.
     py_bind (py_get metadata ''backendUrn'' (JStr [])) (\<lambda>a_urn.
     py_bind (py_get metadata ''shareUrn'' (JStr [])) (\<lambda>s_urn.
     py_bind (py_get item ''commentary'' (JObj [])) (\<lambda>commentary.
     py_bind (py_get commentary ''text'' (JObj [])) (\<lambda>text_obj.
     py_bind (py_get text_obj ''text'' (JStr [])) (\<lambda>p_text.
     py_bind (py_get item ''socialContent'' (JObj [])) (\<lambda>social_content.
     py_bind (py_get social_content ''shareUrl'' (JStr [])) (\<lambda>p_url.
     py_bind (py_get item ''actor'' (JObj [])) (\<lambda>actor.
     py_bind (py_get actor ''name'' (JObj [])) (\<lambda>actor_name.
     py_bind (dict_text actor_name) (\<lambda>a_name.
     py_bind (py_get actor ''description'' (JObj [])) (\<lambda>actor_description.
     py_bind (dict_text actor_description) (\<lambda>a_headline.
     py_bind (py_get actor ''navigationContext'' (JObj [])) (\<lambda>nav_context.
     py_bind (py_get nav_context ''actionTarget'' (JStr [])) (\<lambda>a_url.
       Inr \<lparr> entity_urn = e_urn,
             activity_urn = a_urn,
             share_urn = s_urn,
             post_text = p_text,
             post_url = p_url,
             author_profile_urn = author_profile_ref actor,
             author_name = a_name,
             author_headline = a_headline,
             author_profile_url = a_url,
             video_url_640p = extract_video_url item included True,
             image_urls = extract_image_urls item,
             post_order = idx \<rparr>))))))))))))))))"

text \<open>
  \<^verbatim>\<open>for idx, element_urn in enumerate(elements, 1)\<close>. An element that is not in
  \<^verbatim>\<open>post_lookup\<close> is reported with \<^verbatim>\<open>element_urn[:80]\<close> and skipped. The posts are
  appended in the order of the loop.
\<close>

fun extract_loop :: "(json \<rightharpoonup> json) \<Rightarrow> json \<Rightarrow> int \<Rightarrow> json list \<Rightarrow> py_error + post list" where
  "extract_loop post_lookup included idx [] = Inr []"
| "extract_loop post_lookup included idx (element_urn # rest) =
     (if \<not> hashable element_urn then Inl TypeError
      else
        (case post_lookup (dict_key element_urn) of
           None \<Rightarrow>
             if sliceable element_urn
             then extract_loop post_lookup included (idx + 1) rest
             else Inl TypeError
         | Some item \<Rightarrow>
             if \<not> truthy item
             then (if sliceable element_urn
                   then extract_loop post_lookup included (idx + 1) rest
                   else Inl TypeError)
             else
               py_bind (post_info_of item included idx) (\<lambda>post_info.
               py_bind (extract_loop post_lookup included (idx + 1) rest) (\<lambda>posts.
                 if truthy (post_text post_info) \<or> truthy (post_url post_info)
                 then Inr (post_info # posts)
                 else Inr posts))))"

text \<open>The ordered reference list \<^verbatim>\<open>*elements\<close> of a response.\<close>

definition page_elements :: "json \<Rightarrow> py_error + json" where
  "page_elements activity_data =
     py_bind (py_get activity_data ''data'' (JObj [])) (\<lambda>d1.
     py_bind (py_get d1 ''data'' (JObj [])) (\<lambda>d2.
     py_bind (py_get d2 ''feedDashProfileUpdatesByMemberShareFeed'' (JObj [])) (\<lambda>feed.
       py_get feed ''*elements'' (JArr []))))"

definition extract_posts_from_response :: "json \<Rightarrow> post list" where
  "extract_posts_from_response activity_data =
     (case py_bind (page_elements activity_data) (\<lambda>elements.
             if \<not> truthy elements then Inr []
             else
               py_bind (py_get activity_data ''included'' (JArr [])) (\<lambda>included.
                 if \<not> truthy included then Inr []
                 else
                   py_bind (py_iter included) (\<lambda>inc.
                   py_bind (build_lookup inc Map.empty) (\<lambda>post_lookup.
                   py_bind (py_iter elements) (\<lambda>els.
                     extract_loop post_lookup included 1 els))))) of
        Inl e \<Rightarrow> []
      | Inr posts \<Rightarrow> posts)"

section \<open>The collaborators of a run\<close>

text \<open>
  Logging in, resolving the profile, the HTTP request and the file writes are outside the
  core; a run is given their results. \<open>JNull\<close> stands for the \<^verbatim>\<open>None\<close> that
  \<^verbatim>\<open>extract_profile_urn\<close> and \<^verbatim>\<open>fetch_profile_activity\<close> return on failure. The two
  \<^verbatim>\<open>save_\<close> functions return a file path or \<^verbatim>\<open>None\<close>; only whether a path came back
  is kept. A range file holds the response it was given, so a saved file is represented
  by its range and that response. \<^verbatim>\<open>sync_playwright().start()\<close> and
  \<^verbatim>\<open>os.makedirs(self.session_dir, exist_ok=True)\<close> are called inside the \<^verbatim>\<open>try\<close> of a run
  and either return or raise: \<open>start_playwright\<close> and \<open>make_session_dir\<close> say whether they
  return.
\<close>

record env =
  start_playwright :: bool
  login_to_linkedin :: bool
  extract_profile_urn :: "string \<Rightarrow> json"
  make_session_dir :: bool
  fetch_profile_activity :: "json \<Rightarrow> int \<Rightarrow> int \<Rightarrow> json \<Rightarrow> json"
  save_activity_data :: "int \<times> int \<Rightarrow> bool"
  save_individual_post :: "int \<Rightarrow> bool"

type_synonym saved_file = "(int \<times> int) \<times> json"

section \<open>\<^verbatim>\<open>LinkedInActivityFetcher.process_posts_from_files\<close>\<close>

text \<open>
  \<^verbatim>\<open>int(range_str.split('-')[0])\<close> for \<^verbatim>\<open>range_str = f"{start}-{end}"\<close>: the text before
  the first \<^verbatim>\<open>-\<close> is the numeral of \<open>start\<close> when \<open>start\<close> is not negative and is empty
  otherwise, where \<^verbatim>\<open>int\<close> raises ValueError.
\<close>

definition range_start_of :: "int \<times> int \<Rightarrow> py_error + int" where
  "range_start_of r = (if 0 \<le> fst r then Inr (fst r) else Inl ValueError)"

text \<open>The loop over the posts of one range.\<close>

fun save_posts :: "env \<Rightarrow> int \<Rightarrow> post list \<Rightarrow> post list" where
  "save_posts e range_start [] = []"
| "save_posts e range_start (post_data # rest) =
     (let global_post_number = range_start + post_order post_data;
          post_data' = post_data\<lparr>post_order := global_post_number\<rparr>
      in if save_individual_post e global_post_number
         then post_data' # save_posts e range_start rest
         else save_posts e range_start rest)"

text \<open>The loop over the saved range files; its value is \<^verbatim>\<open>all_posts_data\<close>.\<close>

fun process_loop :: "env \<Rightarrow> saved_file list \<Rightarrow> py_error + post list" where
  "process_loop e [] = Inr []"
| "process_loop e ((r, activity_data) # rest) =
     py_bind (range_start_of r) (\<lambda>range_start.
       let posts = extract_posts_from_response activity_data
       in if posts = [] then process_loop e rest
          else py_bind (process_loop e rest) (\<lambda>more.
                 Inr (save_posts e range_start posts @ more)))"

definition process_posts_from_files :: "env \<Rightarrow> saved_file list \<Rightarrow> nat \<times> post list" where
  "process_posts_from_files e saved_files =
     (case process_loop e saved_files of
        Inl err \<Rightarrow> (0, [])
      | Inr all_posts_data \<Rightarrow> (length all_posts_data, all_posts_data))"

section \<open>\<^verbatim>\<open>LinkedInActivityFetcher.parse_ranges\<close>\<close>

text \<open>The \<^verbatim>\<open>while\<close> loop with the default \<^verbatim>\<open>increment\<close> of 20, which every caller uses.\<close>

function gen_ranges :: "int \<Rightarrow> int \<Rightarrow> (int \<times> int) list" where
  "gen_ranges target_end current_start =
     (if current_start < target_end
      then (let current_end =
                  (if current_start + 20 > target_end then target_end else current_start + 20)
            in (current_start, current_end) # gen_ranges target_end current_end)
      else [])"
  by pat_completeness auto
termination
  by (relation "measure (\<lambda>(target_end, current_start). nat (target_end - current_start))") auto

declare gen_ranges.simps [simp del]

text \<open>
  \<^verbatim>\<open>parse_ranges(str(target_range))\<close>: the text of a negative number contains \<^verbatim>\<open>-\<close>, and
  the part after the last \<^verbatim>\<open>-\<close> is the numeral of its absolute value.
\<close>

definition parse_ranges :: "int \<Rightarrow> (int \<times> int) list" where
  "parse_ranges target_range =
     (let target_end = (if target_range < 0 then - target_range else target_range)
      in gen_ranges target_end 0)"

section \<open>\<^verbatim>\<open>LinkedInActivityFetcher.run_scrape\<close>\<close>

text \<open>
  \<^verbatim>\<open>for idx, (start, end) in enumerate(ranges, 1)\<close>, with \<open>n = len(ranges)\<close>, carrying
  \<^verbatim>\<open>pagination_token\<close> and \<^verbatim>\<open>saved_files\<close>. Each \<^verbatim>\<open>break\<close> ends the loop with the
  files saved so far.
\<close>

fun fetch_loop ::
  "env \<Rightarrow> json \<Rightarrow> nat \<Rightarrow> nat \<Rightarrow> json \<Rightarrow> saved_file list \<Rightarrow> (int \<times> int) list \<Rightarrow> saved_file list" where
  "fetch_loop e profile_urn n idx pagination_token saved_files [] = saved_files"
| "fetch_loop e profile_urn n idx pagination_token saved_files ((start, end) # rest) =
     (if idx \<noteq> 1 \<and> \<not> truthy pagination_token then saved_files
      else
        (let activity_data =
               fetch_profile_activity e profile_urn (end - start) start
                 (if idx = 1 then JNull else pagination_token)
         in if \<not> truthy activity_data then saved_files
            else
              (let saved_files' =
                     (if save_activity_data e (start, end)
                      then saved_files @ [((start, end), activity_data)]
                      else saved_files);
                   pagination_token' = extract_pagination_token activity_data
               in if \<not> truthy pagination_token' \<and> idx < n then saved_files'
                  else fetch_loop e profile_urn n (idx + 1) pagination_token' saved_files' rest)))"

datatype run_error =
    Login_failed
  | Username_cannot_be_empty
  | Failed_to_extract_profileUrn
  | Failed_to_parse_target_range int
  | Unexpected_error

text \<open>
  \<^verbatim>\<open>run_scrape\<close> returns \<^verbatim>\<open>(success, session_dir, error)\<close>. The outcome below keeps
  \<open>success\<close> and \<open>error\<close> and adds what the run prints and writes: the number of range
  files (\<^verbatim>\<open>Ranges fetched\<close>), the number of posts and the posts themselves. An exception
  raised in the body is caught by the handler at the end and gives \<open>Unexpected_error\<close>.
\<close>

record outcome =
  success :: bool
  error :: "run_error option"
  ranges_fetched :: nat
  total_posts :: nat
  all_posts :: "post list"

definition failed :: "run_error \<Rightarrow> outcome" where
  "failed err = \<lparr> success = False, error = Some err, ranges_fetched = 0,
                  total_posts = 0, all_posts = [] \<rparr>"

definition run_scrape :: "env \<Rightarrow> string \<Rightarrow> int \<Rightarrow> outcome" where
  "run_scrape e target_username target_range =
     (if \<not> start_playwright e then failed Unexpected_error
      else if \<not> login_to_linkedin e then failed Login_failed
      else if target_username = [] then failed Username_cannot_be_empty
      else
        (let profile_urn = extract_profile_urn e target_username
         in if \<not> truthy profile_urn then failed Failed_to_extract_profileUrn
            else
              (let ranges = parse_ranges target_range
               in if ranges = [] then failed (Failed_to_parse_target_range target_range)
                  else if \<not> make_session_dir e then failed Unexpected_error
                  else
                    (let saved_files = fetch_loop e profile_urn (length ranges) 1 JNull [] ranges;
                         (n_posts, all_posts_data) = process_posts_from_files e saved_files
                     in \<lparr> success = True, error = None,
                          ranges_fetched = length saved_files,
                          total_posts = n_posts,
                          all_posts = all_posts_data \<rparr>))))"

section \<open>\<^verbatim>\<open>EnhancedLinkedInParser\<close>: post identity and the set of seen identities\<close>

text \<open>\<^verbatim>\<open>sub in s\<close> on strings.\<close>

fun starts_with :: "string \<Rightarrow> string \<Rightarrow> bool" where
  "starts_with [] s = True"
| "starts_with (p # ps) [] = False"
| "starts_with (p # ps) (c # cs) = (p = c \<and> starts_with ps cs)"

fun contains :: "string \<Rightarrow> string \<Rightarrow> bool" where
  "contains sub [] = (sub = [])"
| "contains sub (c # cs) = (starts_with sub (c # cs) \<or> contains sub cs)"

text \<open>
  \<^verbatim>\<open>sub in v\<close> for a string \<open>sub\<close>: a substring test on a string, membership in a list,
  a key test on a dict; TypeError on anything else.
\<close>

fun py_in :: "string \<Rightarrow> json \<Rightarrow> py_error + bool" where
  "py_in sub (JStr s) = Inr (contains sub s)"
| "py_in sub (JArr xs) = Inr (\<exists>x \<in> set xs. py_eq (JStr sub) x)"
| "py_in sub (JObj kv) = Inr (sub \<in> fst ` set kv)"
| "py_in sub _ = Inl TypeError"

text \<open>
  \<^verbatim>\<open>s.split(sep)\<close> for a non-empty separator: the string is scanned from the left and the
  occurrences found do not overlap. \<open>acc\<close> is the current piece, reversed.
\<close>

function split_from :: "string \<Rightarrow> string \<Rightarrow> string \<Rightarrow> string list" where
  "split_from sep acc s =
     (if sep \<noteq> [] \<and> starts_with sep s
      then rev acc # split_from sep [] (drop (length sep) s)
      else (case s of
              [] \<Rightarrow> [rev acc]
            | c # cs \<Rightarrow> split_from sep (c # acc) cs))"
  by pat_completeness auto
termination
proof (relation "measure (\<lambda>(sep, acc, s). length s)")
  show "wf (measure (\<lambda>(sep, acc, s). length s))" by simp
next
  fix sep acc :: string and s :: string
  assume "sep \<noteq> [] \<and> starts_with sep s"
  then have "s \<noteq> []" by (cases sep; cases s) auto
  with \<open>sep \<noteq> [] \<and> starts_with sep s\<close>
  show "((sep, [], drop (length sep) s), (sep, acc, s)) \<in> measure (\<lambda>(sep, acc, s). length s)"
    by simp
next
  fix sep acc :: string and s :: string and c cs
  assume "s = c # cs"
  then show "((sep, c # acc, cs), (sep, acc, s)) \<in> measure (\<lambda>(sep, acc, s). length s)"
    by simp
qed

declare split_from.simps [simp del]

text \<open>\<^verbatim>\<open>v.split(sep)[-1]\<close>: only a string has the method.\<close>

fun split_last :: "string \<Rightarrow> json \<Rightarrow> py_error + string" where
  "split_last sep (JStr s) = Inr (last (split_from sep [] s))"
| "split_last sep _ = Inl AttributeError"

text \<open>\<^verbatim>\<open>str(n)\<close> for an integer.\<close>

definition digit_char :: "nat \<Rightarrow> char" where
  "digit_char d = char_of (of_char CHR ''0'' + d)"

function show_nat :: "nat \<Rightarrow> string" where
  "show_nat n = (if n < 10 then [digit_char n] else show_nat (n div 10) @ [digit_char (n mod 10)])"
  by pat_completeness auto
termination
  by (relation "measure id") auto

declare show_nat.simps [simp del]

definition show_int :: "int \<Rightarrow> string" where
  "show_int i = (if i < 0 then CHR ''-'' # show_nat (nat (- i)) else show_nat (nat i))"

text \<open>
  What the interpreter supplies: \<^verbatim>\<open>hash\<close> on strings, which is keyed by a value chosen
  when the process starts (\<^verbatim>\<open>PYTHONHASHSEED\<close>), and \<^verbatim>\<open>repr\<close> on strings.
\<close>

record interp =
  py_hash :: "string \<Rightarrow> int"
  repr_str :: "string \<Rightarrow> string"

text \<open>\<^verbatim>\<open>repr(v)\<close>, and \<^verbatim>\<open>str(v)\<close> as an f-string field formats it.\<close>

fun py_repr :: "interp \<Rightarrow> json \<Rightarrow> string"
  and py_repr_list :: "interp \<Rightarrow> json list \<Rightarrow> string"
  and py_repr_items :: "interp \<Rightarrow> (string \<times> json) list \<Rightarrow> string" where
  "py_repr I JNull = ''None''"
| "py_repr I (JBool b) = (if b then ''True'' else ''False'')"
| "py_repr I (JNum n) = show_int n"
| "py_repr I (JStr s) = repr_str I s"
| "py_repr I (JArr xs) = ''['' @ py_repr_list I xs @ '']''"
| "py_repr I (JObj kv) = ''{'' @ py_repr_items I kv @ ''}''"
| "py_repr_list I [] = []"
| "py_repr_list I [x] = py_repr I x"
| "py_repr_list I (x # y # ys) = py_repr I x @ '', '' @ py_repr_list I (y # ys)"
| "py_repr_items I [] = []"
| "py_repr_items I [(k, v)] = repr_str I k @ '': '' @ py_repr I v"
| "py_repr_items I ((k, v) # p # ps) =
     repr_str I k @ '': '' @ py_repr I v @ '', '' @ py_repr_items I (p # ps)"

definition py_str :: "interp \<Rightarrow> json \<Rightarrow> string" where
  "py_str I v = (case v of JStr s \<Rightarrow> s | _ \<Rightarrow> py_repr I v)"

text \<open>The loop over \<^verbatim>\<open>['activityUrn', 'updateUrn', 'postUrn']\<close>; \<open>Inr None\<close>: no field matched.\<close>

fun id_field_loop :: "json \<Rightarrow> string list \<Rightarrow> py_error + string option" where
  "id_field_loop post_data [] = Inr None"
| "id_field_loop post_data (id_field # rest) =
     py_bind (py_get post_data id_field (JStr [])) (\<lambda>urn.
       if \<not> truthy urn then id_field_loop post_data rest
       else
         py_bind (py_in '':activity:'' urn) (\<lambda>found.
           if found then py_bind (split_last '':activity:'' urn) (\<lambda>r. Inr (Some r))
           else id_field_loop post_data rest))"

definition key_content :: "interp \<Rightarrow> json \<Rightarrow> py_error + string" where
  "key_content I post_data =
     py_bind (py_get post_data ''author'' (JObj [])) (\<lambda>author.
     py_bind (py_get post_data ''timestamp'' (JObj [])) (\<lambda>timestamp.
     py_bind (py_get post_data ''commentary'' (JObj [])) (\<lambda>commentary.
       Inr (py_str I author @ ''_'' @ py_str I timestamp @ ''_'' @ py_str I commentary))))"

text \<open>\<^verbatim>\<open>EnhancedLinkedInParser._extract_post_id\<close>.\<close>

definition extract_post_id :: "interp \<Rightarrow> json \<Rightarrow> py_error + string" where
  "extract_post_id I post_data =
     py_bind (py_get post_data ''entityUrn'' (JStr [])) (\<lambda>urn.
       if truthy urn
       then
         py_bind (py_in '':activity:'' urn) (\<lambda>a.
           if a then split_last '':activity:'' urn
           else
             py_bind (py_in ''urn:li:activity:'' urn) (\<lambda>b.
               if b then split_last '':activity:'' urn
               else split_last '':'' urn))
       else
         py_bind (id_field_loop post_data [''activityUrn'', ''updateUrn'', ''postUrn'']) (\<lambda>r.
           case r of
             Some post_id \<Rightarrow> Inr post_id
           | None \<Rightarrow>
               py_bind (key_content I post_data) (\<lambda>k. Inr (show_int (py_hash I k)))))"

text \<open>
  \<^verbatim>\<open>EnhancedLinkedInParser._parse_single_post_enhanced\<close>, with \<^verbatim>\<open>self.seen_post_ids\<close>
  passed in and returned. What follows the update of the set reads \<^verbatim>\<open>post_data\<close> only and
  ends in a \<^verbatim>\<open>PostInfo\<close> or in \<^verbatim>\<open>None\<close> (no text of more than ten characters, or an
  exception); \<open>assemble\<close> stands for it and gives the fields of the \<^verbatim>\<open>PostInfo\<close> other than
  \<^verbatim>\<open>post_id\<close>. An emitted post is its \<^verbatim>\<open>post_id\<close> with those fields.
\<close>

definition parse_single_post_enhanced ::
  "interp \<Rightarrow> (json \<Rightarrow> 'a option) \<Rightarrow> string set \<Rightarrow> json \<Rightarrow> (string \<times> 'a) option \<times> string set" where
  "parse_single_post_enhanced I assemble seen_post_ids post_data =
     (case extract_post_id I post_data of
        Inl e \<Rightarrow> (None, seen_post_ids)
      | Inr post_id \<Rightarrow>
          if post_id \<in> seen_post_ids then (None, seen_post_ids)
          else (map_option (\<lambda>f. (post_id, f)) (assemble post_data), insert post_id seen_post_ids))"

text \<open>
  \<^verbatim>\<open>EnhancedLinkedInParser._search_for_posts_recursive_enhanced\<close>: the state is the list
  \<^verbatim>\<open>posts\<close> and the set of seen identities. A dict of the Update type is parsed, then
  its values are searched; the items of a list are searched in order.
\<close>

fun search_posts ::
    "interp \<Rightarrow> (json \<Rightarrow> 'a option) \<Rightarrow> (string \<times> 'a) list \<times> string set \<Rightarrow> json \<Rightarrow>
     (string \<times> 'a) list \<times> string set"
  and search_list ::
    "interp \<Rightarrow> (json \<Rightarrow> 'a option) \<Rightarrow> (string \<times> 'a) list \<times> string set \<Rightarrow> json list \<Rightarrow>
     (string \<times> 'a) list \<times> string set"
  and search_values ::
    "interp \<Rightarrow> (json \<Rightarrow> 'a option) \<Rightarrow> (string \<times> 'a) list \<times> string set \<Rightarrow> (string \<times> json) list \<Rightarrow>
     (string \<times> 'a) list \<times> string set" where
  "search_posts I assemble st (JObj kv) =
     search_values I assemble
       (if map_of kv ''$type'' = Some (JStr update_type)
        then (case parse_single_post_enhanced I assemble (snd st) (JObj kv) of
                (None, seen) \<Rightarrow> (fst st, seen)
              | (Some post_info, seen) \<Rightarrow> (fst st @ [post_info], seen))
        else st)
       kv"
| "search_posts I assemble st (JArr xs) = search_list I assemble st xs"
| "search_posts I assemble st JNull = st"
| "search_posts I assemble st (JBool b) = st"
| "search_posts I assemble st (JNum n) = st"
| "search_posts I assemble st (JStr s) = st"
| "search_list I assemble st [] = st"
| "search_list I assemble st (x # xs) = search_list I assemble (search_posts I assemble st x) xs"
| "search_values I assemble st [] = st"
| "search_values I assemble st ((k, v) # rest) =
     search_values I assemble (search_posts I assemble st v) rest"

text \<open>
  \<^verbatim>\<open>EnhancedLinkedInParser.parse_posts_enhanced\<close> on a parser whose set of seen identities
  is \<open>seen_post_ids\<close>: the posts returned and the set afterwards.
\<close>

definition parse_posts_enhanced ::
  "interp \<Rightarrow> (json \<Rightarrow> 'a option) \<Rightarrow> string set \<Rightarrow> json \<Rightarrow> (string \<times> 'a) list \<times> string set" where
  "parse_posts_enhanced I assemble seen_post_ids data = search_posts I assemble ([], seen_post_ids) data"

section \<open>Example responses and collaborators\<close>

text \<open>An Update entity with an identifier and a body text, and a response page.\<close>

definition example_update :: "string \<Rightarrow> string \<Rightarrow> json" where
  "example_update urn body =
     JObj [(''$type'', JStr update_type),
           (''entityUrn'', JStr urn),
           (''commentary'', JObj [(''text'', JObj [(''text'', JStr body)])])]"

definition example_page :: "json list \<Rightarrow> json list \<Rightarrow> json \<Rightarrow> json" where
  "example_page elements included token =
     JObj [(''data'', JObj [(''data'', JObj [(''feedDashProfileUpdatesByMemberShareFeed'',
              JObj [(''*elements'', JArr elements),
                    (''metadata'', JObj [(''paginationToken'', token)])])])]),
           (''included'', JArr included)]"

text \<open>Two posts, listed in \<^verbatim>\<open>included\<close> in the opposite order of \<^verbatim>\<open>*elements\<close>.\<close>

definition two_posts :: "json \<Rightarrow> json" where
  "two_posts token =
     example_page [JStr ''urn:a'', JStr ''urn:b'']
       [example_update ''urn:b'' ''second'', example_update ''urn:a'' ''first''] token"

definition example_env :: "(int \<Rightarrow> json \<Rightarrow> json) \<Rightarrow> env" where
  "example_env respond =
     \<lparr> start_playwright = True,
       login_to_linkedin = True,
       extract_profile_urn = (\<lambda>u. JStr ''urn:li:fsd_profile:P''),
       make_session_dir = True,
       fetch_profile_activity = (\<lambda>profile_urn count start token. respond start token),
       save_activity_data = (\<lambda>r. True),
       save_individual_post = (\<lambda>n. True) \<rparr>"

text \<open>A server whose first page carries no token.\<close>

definition no_token_env :: env where
  "no_token_env = example_env (\<lambda>start token. two_posts JNull)"

text \<open>A server that answers the first request and fails every later one.\<close>

definition page2_fails_env :: env where
  "page2_fails_env =
     example_env (\<lambda>start token. if start = 0 then two_posts (JStr ''t1'') else JNull)"

text \<open>A server that answers every request with the same page.\<close>

definition same_page_env :: env where
  "same_page_env = example_env (\<lambda>start token. two_posts (JStr ''t1''))"

text \<open>A page's entity list with two Update entities of the same identifier.\<close>

definition example_included :: "json list" where
  "example_included =
     [example_update ''urn:a'' ''old'',
      JObj [(''$type'', JStr ''com.linkedin.voyager.dash.feed.Other''), (''entityUrn'', JStr ''urn:x'')],
      example_update [] ''no identifier'',
      example_update ''urn:a'' ''new'',
      JObj [(''entityUrn'', JStr ''urn:y'')]]"

text \<open>An image element with a root URL and a list of artifacts, and a post that carries it.\<close>

definition example_artifact :: "int \<Rightarrow> string \<Rightarrow> json" where
  "example_artifact w file_segment =
     JObj [(''width'', JNum w), (''fileIdentifyingUrlPathSegment'', JStr file_segment)]"

definition example_image :: "string \<Rightarrow> json list \<Rightarrow> json" where
  "example_image root_url artifacts =
     JObj [(''attributes'', JArr [JObj [(''detailData'',
              JObj [(''vectorImage'',
                JObj [(''rootUrl'', JStr root_url), (''artifacts'', JArr artifacts)])])]])]"

definition example_image_post :: "json list \<Rightarrow> json" where
  "example_image_post images =
     JObj [(''content'', JObj [(''imageComponent'', JObj [(''images'', JArr images)])])]"

text \<open>
  What the loop over \<^verbatim>\<open>progressiveStreams\<close> reads from one stream: its width, its height
  and the URL of its first streaming location (empty when the stream has no location).
\<close>

definition stream_reads :: "json \<Rightarrow> int \<times> int \<times> string \<Rightarrow> bool" where
  "stream_reads stream d =
     (case d of (w, h, u) \<Rightarrow>
        py_get stream ''width'' (JNum 0) = Inr (JNum w) \<and>
        py_get stream ''height'' (JNum 0) = Inr (JNum h) \<and>
        (case py_get stream ''streamingLocations'' (JArr []) of
           Inr (JArr []) \<Rightarrow> u = []
         | Inr (JArr (loc # rest)) \<Rightarrow> py_get loc ''url'' (JStr []) = Inr (JStr u)
         | _ \<Rightarrow> False))"

text \<open>A stream, a playback-metadata entity and a post that refers to it.\<close>

definition example_stream :: "int \<Rightarrow> int \<Rightarrow> string \<Rightarrow> json" where
  "example_stream w h url =
     JObj [(''width'', JNum w), (''height'', JNum h),
           (''streamingLocations'', JArr [JObj [(''url'', JStr url)]])]"

definition example_video_metadata :: "string \<Rightarrow> json list \<Rightarrow> json" where
  "example_video_metadata urn streams =
     JObj [(''entityUrn'', JStr urn), (''progressiveStreams'', JArr streams)]"

definition example_video_post :: "string \<Rightarrow> json" where
  "example_video_post video_ref =
     JObj [(''content'',
            JObj [(''linkedInVideoComponent'', JObj [(''*videoPlayMetadata'', JStr video_ref)])])]"

text \<open>The same server when the range file of a page cannot be written.\<close>

definition no_token_unsaved_env :: env where
  "no_token_unsaved_env = no_token_env\<lparr>save_activity_data := (\<lambda>r. False)\<rparr>"


fun is_ok :: "py_error + 'a \<Rightarrow> bool" where
  "is_ok (Inl e) = False"
| "is_ok (Inr x) = True"










section \<open>Evaluation lemmas\<close>

lemma py_bind_Inr [simp]: "py_bind (Inr x) f = f x"
  by (simp add: py_bind_def)

lemma py_bind_Inl [simp]: "py_bind (Inl e) f = Inl e"
  by (simp add: py_bind_def)

lemma gen_ranges_step:
  "current_start < target_end \<Longrightarrow>
   gen_ranges target_end current_start =
     (current_start,
      if current_start + 20 > target_end then target_end else current_start + 20)
     # gen_ranges target_end
         (if current_start + 20 > target_end then target_end else current_start + 20)"
  by (subst gen_ranges.simps) (simp add: Let_def)

lemma gen_ranges_done:
  "\<not> current_start < target_end \<Longrightarrow> gen_ranges target_end current_start = []"
  by (subst gen_ranges.simps) simp

lemma parse_ranges_40: "parse_ranges 40 = [(0, 20), (20, 40)]"
  by (simp add: parse_ranges_def gen_ranges_step gen_ranges_done)

lemma parse_ranges_60: "parse_ranges 60 = [(0, 20), (20, 40), (40, 60)]"
  by (simp add: parse_ranges_def gen_ranges_step gen_ranges_done)

lemma parse_ranges_multi:
  assumes "20 < t"
  shows "\<exists>r rest. parse_ranges t = (0, 20) # r # rest"
proof -
  have "gen_ranges t 0 = (0, 20) # gen_ranges t 20"
    using assms gen_ranges_step [of 0 t] by simp
  moreover have "\<exists>r rest. gen_ranges t 20 = r # rest"
    using assms gen_ranges_step [of 20 t] by blast
  ultimately show ?thesis
    using assms by (auto simp: parse_ranges_def)
qed

lemma parse_ranges_three:
  assumes "40 < t" and "t \<le> 60"
  shows "parse_ranges t = [(0, 20), (20, 40), (40, t)]"
proof -
  have a: "gen_ranges t 0 = (0, 20) # gen_ranges t 20"
    using assms gen_ranges_step [of 0 t] by simp
  have b: "gen_ranges t 20 = (20, 40) # gen_ranges t 40"
    using assms gen_ranges_step [of 20 t] by simp
  have c: "gen_ranges t 40 = (40, t) # gen_ranges t t"
    using assms gen_ranges_step [of 40 t] by (cases "t = 60") simp_all
  have d: "gen_ranges t t = []"
    by (rule gen_ranges_done) simp
  show ?thesis
    using assms by (simp add: parse_ranges_def a b c d)
qed

lemma token_two_posts:
  "extract_pagination_token (two_posts t) = (if truthy t \<and> sliceable t then t else JNull)"
  by (simp add: extract_pagination_token_def two_posts_def example_page_def)

lemma truthy_two_posts: "truthy (two_posts t)"
  by (simp add: two_posts_def example_page_def)

lemma posts_two_posts:
  "extract_posts_from_response (two_posts t) =
     [\<lparr> entity_urn = JStr ''urn:a'', activity_urn = JStr [], share_urn = JStr [],
        post_text = JStr ''first'', post_url = JStr [], author_profile_urn = JStr [],
        author_name = JStr [], author_headline = JStr [], author_profile_url = JStr [],
        video_url_640p = JStr [], image_urls = [], post_order = 1 \<rparr>,
      \<lparr> entity_urn = JStr ''urn:b'', activity_urn = JStr [], share_urn = JStr [],
        post_text = JStr ''second'', post_url = JStr [], author_profile_urn = JStr [],
        author_name = JStr [], author_headline = JStr [], author_profile_url = JStr [],
        video_url_640p = JStr [], image_urls = [], post_order = 2 \<rparr>]"
  by (simp add: extract_posts_from_response_def page_elements_def two_posts_def
      example_page_def example_update_def update_type_def post_info_of_def dict_text_def
      author_profile_ref_def extract_video_url_def extract_image_urls_def)

section \<open>The entity index\<close>

lemma py_eq_JStr: "py_eq t (JStr s) = (t = JStr s)"
  by (cases t) auto

lemma build_lookup_filter:
  assumes "\<forall>item \<in> set included. \<exists>kv. item = JObj kv"
    and "\<forall>item \<in> set included. \<forall>kv. item = JObj kv \<longrightarrow>
           map_of kv ''$type'' = Some (JStr update_type) \<longrightarrow>
           (\<forall>u. map_of kv ''entityUrn'' = Some u \<longrightarrow> truthy u \<longrightarrow> hashable u)"
  shows "build_lookup included m =
           Inr (\<lambda>k. case filter (\<lambda>item. \<exists>kv u. item = JObj kv \<and>
                                   map_of kv ''$type'' = Some (JStr update_type) \<and>
                                   map_of kv ''entityUrn'' = Some u \<and> truthy u \<and>
                                   dict_key u = k) included of
                       [] \<Rightarrow> m k
                     | x # xs \<Rightarrow> Some (last (x # xs)))"
  using assms
proof (induction included arbitrary: m)
  case Nil
  then show ?case by simp
next
  case (Cons item rest)
  from Cons.prems(1) obtain kv where kv: "item = JObj kv" by auto
  have rest1: "\<forall>item \<in> set rest. \<exists>kv. item = JObj kv"
    using Cons.prems(1) by simp
  have rest2: "\<forall>item \<in> set rest. \<forall>kv. item = JObj kv \<longrightarrow>
           map_of kv ''$type'' = Some (JStr update_type) \<longrightarrow>
           (\<forall>u. map_of kv ''entityUrn'' = Some u \<longrightarrow> truthy u \<longrightarrow> hashable u)"
    using Cons.prems(2) by simp
  note IH = Cons.IH [OF rest1 rest2]
  show ?case
  proof (cases "map_of kv ''$type'' = Some (JStr update_type)")
    case False
    then have "build_lookup (item # rest) m = build_lookup rest m"
      by (auto simp: kv py_eq_JStr split: option.splits)
    with False show ?thesis
      by (simp add: IH kv)
  next
    case True
    show ?thesis
    proof (cases "map_of kv ''entityUrn''")
      case None
      then have "build_lookup (item # rest) m = build_lookup rest m"
        using True by (simp add: kv py_eq_JStr)
      with None show ?thesis
        by (simp add: IH kv)
    next
      case (Some u)
      show ?thesis
      proof (cases "truthy u")
        case False
        then have "build_lookup (item # rest) m = build_lookup rest m"
          using True Some by (simp add: kv py_eq_JStr)
        with False Some show ?thesis
          by (simp add: IH kv)
      next
        case tr: True
        have "hashable u"
          using Cons.prems(2) True Some tr by (simp add: kv)
        then have "build_lookup (item # rest) m = build_lookup rest (m(dict_key u \<mapsto> item))"
          using True Some tr by (simp add: kv py_eq_JStr)
        then show ?thesis
          using True Some tr
          by (auto simp: IH kv fun_eq_iff split: list.splits)
      qed
    qed
  qed
qed


text \<open>
  C10. For a page whose entities are dicts (with identifiers that can be dict keys), the
  index built from the flat entity list is defined, and it maps a key to the last entity
  of the list that has the Update type and a non-empty \<^verbatim>\<open>entityUrn\<close> of that key; a key
  with no such entity is not in the index. The list itself is only read.
\<close>

theorem build_lookup_index:
  assumes "\<forall>item \<in> set included. \<exists>kv. item = JObj kv"
    and "\<forall>item \<in> set included. \<forall>kv u. item = JObj kv \<longrightarrow>
           map_of kv ''entityUrn'' = Some u \<longrightarrow> hashable u"
  shows "build_lookup included Map.empty =
           Inr (\<lambda>k. case filter (\<lambda>item. \<exists>kv u. item = JObj kv \<and>
                                   map_of kv ''$type'' = Some (JStr update_type) \<and>
                                   map_of kv ''entityUrn'' = Some u \<and> truthy u \<and>
                                   dict_key u = k) included of
                       [] \<Rightarrow> None
                     | x # xs \<Rightarrow> Some (last (x # xs)))"
  using assms by (intro build_lookup_filter) auto

theorem build_lookup_index_witness:
  "(case build_lookup example_included Map.empty of
      Inl e \<Rightarrow> False
    | Inr post_lookup \<Rightarrow>
        post_lookup (JStr ''urn:a'') = Some (example_update ''urn:a'' ''new'') \<and>
        post_lookup (JStr ''urn:x'') = None \<and>
        post_lookup (JStr ''urn:y'') = None \<and>
        post_lookup (JStr []) = None)"
proof -
  have e: "build_lookup example_included Map.empty =
           Inr (\<lambda>k. case filter (\<lambda>item. \<exists>kv u. item = JObj kv \<and>
                                   map_of kv ''$type'' = Some (JStr update_type) \<and>
                                   map_of kv ''entityUrn'' = Some u \<and> truthy u \<and>
                                   dict_key u = k) example_included of
                       [] \<Rightarrow> None
                     | x # xs \<Rightarrow> Some (last (x # xs)))"
    by (rule build_lookup_index)
       (simp_all add: example_included_def example_update_def update_type_def)
  show ?thesis
    by (subst e) (simp add: example_included_def example_update_def update_type_def)
qed

section \<open>Image resolution\<close>

lemma max_loop_keep:
  assumes "list_all2 (\<lambda>a w. py_get a ''width'' (JNum 0) = Inr (JNum w)) xs ws"
    and "\<forall>w \<in> set ws. w \<le> bk"
  shows "max_loop best (JNum bk) xs = Inr best"
  using assms by (induction xs ws rule: list_all2_induct) auto

lemma max_loop_first_max:
  assumes "list_all2 (\<lambda>a w. py_get a ''width'' (JNum 0) = Inr (JNum w)) xs ws"
    and "i < length xs"
    and "\<forall>j < length ws. ws ! j \<le> ws ! i"
    and "\<forall>j < i. ws ! j < ws ! i"
    and "bk < ws ! i"
  shows "max_loop best (JNum bk) xs = Inr (xs ! i)"
  using assms
proof (induction xs ws arbitrary: i best bk rule: list_all2_induct)
  case Nil
  then show ?case by simp
next
  case (Cons x xs w ws)
  show ?case
  proof (cases i)
    case 0
    have "\<forall>v \<in> set ws. v \<le> w"
    proof
      fix v assume "v \<in> set ws"
      then obtain j where "j < length ws" "ws ! j = v"
        by (auto simp: in_set_conv_nth)
      with Cons.prems(2) [rule_format, of "Suc j"] 0 show "v \<le> w" by simp
    qed
    with Cons.hyps(2) have "max_loop x (JNum w) xs = Inr x"
      by (rule max_loop_keep)
    with Cons 0 show ?thesis by simp
  next
    case (Suc i')
    have le: "\<forall>j < length ws. ws ! j \<le> ws ! i'"
    proof (intro allI impI)
      fix j assume "j < length ws"
      with Cons.prems(2) [rule_format, of "Suc j"] Suc show "ws ! j \<le> ws ! i'" by simp
    qed
    have lt: "\<forall>j < i'. ws ! j < ws ! i'"
    proof (intro allI impI)
      fix j assume "j < i'"
      with Cons.prems(3) [rule_format, of "Suc j"] Suc show "ws ! j < ws ! i'" by simp
    qed
    have w: "w < ws ! i'"
      using Cons.prems(3) [rule_format, of 0] Suc by simp
    have i': "i' < length xs"
      using Cons.prems(1) Suc by simp
    have bk: "bk < ws ! i'"
      using Cons.prems(4) Suc by simp
    show ?thesis
    proof (cases "bk < w")
      case True
      have "max_loop x (JNum w) xs = Inr (xs ! i')"
        by (rule Cons.IH [OF i' le lt w])
      with True Cons.hyps(1) Suc show ?thesis by simp
    next
      case False
      have "max_loop best (JNum bk) xs = Inr (xs ! i')"
        by (rule Cons.IH [OF i' le lt bk])
      with False Cons.hyps(1) Suc show ?thesis by simp
    qed
  qed
qed

lemma max_by_width_first_max:
  assumes "list_all2 (\<lambda>a w. py_get a ''width'' (JNum 0) = Inr (JNum w)) artifacts widths"
    and "i < length artifacts"
    and "\<forall>j < length widths. widths ! j \<le> widths ! i"
    and "\<forall>j < i. widths ! j < widths ! i"
  shows "max_by_width (JArr artifacts) = Inr (artifacts ! i)"
proof (cases artifacts)
  case Nil
  with assms(2) show ?thesis by simp
next
  case (Cons x xs)
  with assms(1) obtain w ws where ws: "widths = w # ws"
    and xw: "py_get x ''width'' (JNum 0) = Inr (JNum w)"
    and rest: "list_all2 (\<lambda>a w. py_get a ''width'' (JNum 0) = Inr (JNum w)) xs ws"
    by (auto simp: list_all2_Cons1)
  show ?thesis
  proof (cases i)
    case 0
    have "\<forall>v \<in> set ws. v \<le> w"
    proof
      fix v assume "v \<in> set ws"
      then obtain j where "j < length ws" "ws ! j = v"
        by (auto simp: in_set_conv_nth)
      with assms(3) [rule_format, of "Suc j"] 0 ws show "v \<le> w" by simp
    qed
    with rest have "max_loop x (JNum w) xs = Inr x"
      by (rule max_loop_keep)
    with 0 Cons xw show ?thesis by (simp add: max_by_width_def)
  next
    case (Suc i')
    have le: "\<forall>j < length ws. ws ! j \<le> ws ! i'"
    proof (intro allI impI)
      fix j assume "j < length ws"
      with assms(3) [rule_format, of "Suc j"] Suc ws show "ws ! j \<le> ws ! i'" by simp
    qed
    have lt: "\<forall>j < i'. ws ! j < ws ! i'"
    proof (intro allI impI)
      fix j assume "j < i'"
      with assms(4) [rule_format, of "Suc j"] Suc ws show "ws ! j < ws ! i'" by simp
    qed
    have w: "w < ws ! i'"
      using assms(4) [rule_format, of 0] Suc ws by simp
    have i': "i' < length xs"
      using assms(2) Suc Cons by simp
    have "max_loop x (JNum w) xs = Inr (xs ! i')"
      using rest i' le lt w by (rule max_loop_first_max)
    with Suc Cons xw show ?thesis by (simp add: max_by_width_def)
  qed
qed

text \<open>
  C6. For an image element that carries a root URL and a non-empty list of artifacts with
  integer widths, the artifact chosen is the first one of maximal width (position \<open>i\<close>:
  no width is greater, and every earlier one is smaller), and the URL of the image is the
  root URL followed by that artifact's path segment. An image whose chosen artifact has no
  path segment gives no URL.
\<close>

theorem image_url_largest_width:
  assumes "py_get img ''attributes'' (JArr []) = Inr (JArr (first_attr # others))"
    and "py_get first_attr ''detailData'' (JObj []) = Inr detail_data"
    and "py_get detail_data ''vectorImage'' (JObj []) = Inr vector_image"
    and "py_get vector_image ''rootUrl'' (JStr []) = Inr (JStr root_url)"
    and "root_url \<noteq> []"
    and "py_get vector_image ''artifacts'' (JArr []) = Inr (JArr artifacts)"
    and "list_all2 (\<lambda>a w. py_get a ''width'' (JNum 0) = Inr (JNum w)) artifacts widths"
    and "i < length artifacts"
    and "\<forall>j < length widths. widths ! j \<le> widths ! i"
    and "\<forall>j < i. widths ! j < widths ! i"
    and "py_get (artifacts ! i) ''fileIdentifyingUrlPathSegment'' (JStr []) =
           Inr (JStr file_segment)"
  shows "image_url img =
           Inr (if file_segment = [] then None else Some (JStr (root_url @ file_segment)))"
proof -
  have best: "max_by_width (JArr artifacts) = Inr (artifacts ! i)"
    using assms(7-10) by (rule max_by_width_first_max)
  have ne: "artifacts \<noteq> []"
    using assms(8) by auto
  show ?thesis
    using assms(1-6,11) ne by (simp add: image_url_def best)
qed

theorem image_url_largest_width_witness:
  "extract_image_urls (example_image_post
      [example_image ''https://media/''
         [example_artifact 320 ''small'', example_artifact 640 ''medium'',
          example_artifact 720 ''large''],
       example_image ''https://media/''
         [example_artifact 720 ''first'', example_artifact 320 ''low'',
          example_artifact 720 ''second'']]) =
     [JStr ''https://media/large'', JStr ''https://media/first'']"
proof -
  let ?A = "[example_artifact 320 ''small'', example_artifact 640 ''medium'',
             example_artifact 720 ''large'']"
  let ?B = "[example_artifact 720 ''first'', example_artifact 320 ''low'',
             example_artifact 720 ''second'']"
  have a: "image_url (example_image ''https://media/'' ?A) =
           Inr (if ''large'' = [] then None else Some (JStr (''https://media/'' @ ''large'')))"
    by (rule image_url_largest_width
          [where first_attr = "JObj [(''detailData'', JObj [(''vectorImage'',
                   JObj [(''rootUrl'', JStr ''https://media/''), (''artifacts'', JArr ?A)])])]"
             and others = "[]"
             and detail_data = "JObj [(''vectorImage'',
                   JObj [(''rootUrl'', JStr ''https://media/''), (''artifacts'', JArr ?A)])]"
             and vector_image =
                   "JObj [(''rootUrl'', JStr ''https://media/''), (''artifacts'', JArr ?A)]"
             and artifacts = ?A and widths = "[320, 640, 720]" and i = 2])
       (simp_all add: example_image_def example_artifact_def All_less_Suc numeral_2_eq_2)
  have b: "image_url (example_image ''https://media/'' ?B) =
           Inr (if ''first'' = [] then None else Some (JStr (''https://media/'' @ ''first'')))"
    by (rule image_url_largest_width
          [where first_attr = "JObj [(''detailData'', JObj [(''vectorImage'',
                   JObj [(''rootUrl'', JStr ''https://media/''), (''artifacts'', JArr ?B)])])]"
             and others = "[]"
             and detail_data = "JObj [(''vectorImage'',
                   JObj [(''rootUrl'', JStr ''https://media/''), (''artifacts'', JArr ?B)])]"
             and vector_image =
                   "JObj [(''rootUrl'', JStr ''https://media/''), (''artifacts'', JArr ?B)]"
             and artifacts = ?B and widths = "[720, 320, 720]" and i = 0])
       (simp_all add: example_image_def example_artifact_def All_less_Suc numeral_2_eq_2)
  show ?thesis
    by (simp add: extract_image_urls_def example_image_post_def a b)
qed

section \<open>Video resolution\<close>

lemma scan_streams_reads:
  assumes "list_all2 stream_reads streams descr"
  shows "scan_streams streams (JStr a, JStr b, JStr c) =
           Inr (JStr (case filter (\<lambda>(w, h, u). u \<noteq> [] \<and> (w = 640 \<or> h = 640)) descr of
                        [] \<Rightarrow> a | x # xs \<Rightarrow> snd (snd (last (x # xs)))),
                JStr (case filter (\<lambda>(w, h, u). u \<noteq> [] \<and> (w = 720 \<or> h = 720)) descr of
                        [] \<Rightarrow> b | x # xs \<Rightarrow> snd (snd (last (x # xs)))),
                JStr (if c \<noteq> [] then c
                      else (case filter (\<lambda>(w, h, u). u \<noteq> []) descr of
                              [] \<Rightarrow> [] | x # xs \<Rightarrow> snd (snd x))))"
  using assms
proof (induction streams descr arbitrary: a b c rule: list_all2_induct)
  case Nil
  then show ?case by simp
next
  case (Cons s streams d descr)
  obtain w h u where d: "d = (w, h, u)" by (cases d)
  from Cons.hyps(1) have sw: "py_get s ''width'' (JNum 0) = Inr (JNum w)"
    and sh: "py_get s ''height'' (JNum 0) = Inr (JNum h)"
    by (simp_all add: stream_reads_def d)
  from Cons.hyps(1) consider
      (none) "py_get s ''streamingLocations'' (JArr []) = Inr (JArr [])" "u = []"
    | (some) loc rest where "py_get s ''streamingLocations'' (JArr []) = Inr (JArr (loc # rest))"
        "py_get loc ''url'' (JStr []) = Inr (JStr u)"
    by (auto simp: stream_reads_def d split: sum.splits json.splits list.splits)
  then show ?case
  proof cases
    case none
    then show ?thesis
      by (simp add: sw sh d Cons.IH)
  next
    case some
    show ?thesis
    proof (cases "u = []")
      case True
      with some show ?thesis
        by (simp add: sw sh d Cons.IH)
    next
      case False
      with some show ?thesis
        by (simp add: sw sh d Cons.IH split: list.splits)
    qed
  qed
qed

lemma last_filter_url:
  assumes "filter (\<lambda>(w, h, u). u \<noteq> [] \<and> Q w h) descr = x # xs"
  shows "snd (snd (last (x # xs))) \<noteq> []"
proof -
  have "last (x # xs) \<in> set (filter (\<lambda>(w, h, u). u \<noteq> [] \<and> Q w h) descr)"
    unfolding assms by (rule last_in_set) simp
  then show ?thesis by auto
qed

lemma hd_filter_url:
  assumes "filter (\<lambda>(w, h, u). u \<noteq> []) descr = x # xs"
  shows "snd (snd x) \<noteq> []"
proof -
  have "x \<in> set (filter (\<lambda>(w, h, u). u \<noteq> []) descr)"
    unfolding assms by simp
  then show ?thesis by auto
qed

lemma find_video_metadata_absent:
  assumes "\<forall>x \<in> set included. \<exists>u. py_get x ''entityUrn'' JNull = Inr u \<and> u \<noteq> JStr video_ref"
  shows "find_video_metadata (JStr video_ref) included = Inr JNull"
  using assms by (induction included) (auto simp: py_eq_JStr simp del: py_eq.simps)

lemma find_video_metadata_first:
  assumes "\<forall>x \<in> set before. \<exists>u. py_get x ''entityUrn'' JNull = Inr u \<and> u \<noteq> JStr video_ref"
    and "py_get video_metadata ''entityUrn'' JNull = Inr (JStr video_ref)"
  shows "find_video_metadata (JStr video_ref) (before @ video_metadata # after) =
           Inr video_metadata"
  using assms by (induction before) (auto simp: py_eq_JStr simp del: py_eq.simps)

lemma entity_with_urn_truthy:
  assumes "py_get video_metadata ''entityUrn'' JNull = Inr (JStr video_ref)"
  shows "truthy video_metadata"
  using assms by (cases video_metadata) (auto split: option.splits)

lemma preferred_url:
  "py_or (py_or
      (JStr (case filter (\<lambda>(w, h, u). u \<noteq> [] \<and> (w = 640 \<or> h = 640)) descr of
               [] \<Rightarrow> [] | x # xs \<Rightarrow> snd (snd (last (x # xs)))))
      (JStr (case filter (\<lambda>(w, h, u). u \<noteq> [] \<and> (w = 720 \<or> h = 720)) descr of
               [] \<Rightarrow> [] | x # xs \<Rightarrow> snd (snd (last (x # xs))))))
    (JStr (case filter (\<lambda>(w, h, u). u \<noteq> []) descr of [] \<Rightarrow> [] | x # xs \<Rightarrow> snd (snd x))) =
   JStr (case filter (\<lambda>(w, h, u). u \<noteq> [] \<and> (w = 640 \<or> h = 640)) descr of
                    x # xs \<Rightarrow> snd (snd (last (x # xs)))
                  | [] \<Rightarrow>
                 (case filter (\<lambda>(w, h, u). u \<noteq> [] \<and> (w = 720 \<or> h = 720)) descr of
                    x # xs \<Rightarrow> snd (snd (last (x # xs)))
                  | [] \<Rightarrow>
                 (case filter (\<lambda>(w, h, u). u \<noteq> []) descr of
                    x # xs \<Rightarrow> snd (snd x)
                  | [] \<Rightarrow> [])))"
proof (cases "filter (\<lambda>(w, h, u). u \<noteq> [] \<and> (w = 640 \<or> h = 640)) descr")
  case (Cons x xs)
  from last_filter_url [OF this] Cons show ?thesis
    by (simp add: py_or_def)
next
  case n640: Nil
  show ?thesis
  proof (cases "filter (\<lambda>(w, h, u). u \<noteq> [] \<and> (w = 720 \<or> h = 720)) descr")
    case (Cons x xs)
    from last_filter_url [OF this] Cons n640 show ?thesis
      by (simp add: py_or_def)
  next
    case n720: Nil
    show ?thesis
    proof (cases "filter (\<lambda>(w, h, u). u \<noteq> []) descr")
      case (Cons x xs)
      from hd_filter_url [OF this] Cons n640 n720 show ?thesis
        by (simp add: py_or_def)
    next
      case Nil
      with n640 n720 show ?thesis
        by (simp add: py_or_def)
    qed
  qed
qed

text \<open>
  C7. For a post whose video component refers to a playback-metadata entity by a non-empty
  identifier, with 640 preferred. When no entity of the page has that identifier, the
  result is empty. When the first entity with that identifier has the stream list
  \<open>streams\<close>, then among the streams that have a URL the result is the URL of a stream (the
  last one) whose width or height is 640 if there is one, else of a stream (the last one)
  whose width or height is 720 if there is one, else of the first stream; an empty stream
  list, or no stream with a URL, gives the empty result. Nothing is raised.
\<close>

theorem extract_video_url_preference:
  assumes "py_get item ''content'' (JObj []) = Inr content"
    and "py_get content ''linkedInVideoComponent'' (JObj []) = Inr video_component"
    and "py_get video_component ''*videoPlayMetadata'' (JStr []) = Inr (JStr video_ref)"
    and "video_ref \<noteq> []"
  shows "((\<forall>x \<in> set included. \<exists>u. py_get x ''entityUrn'' JNull = Inr u \<and> u \<noteq> JStr video_ref) \<longrightarrow>
            extract_video_url item (JArr included) True = JStr []) \<and>
         (included = before @ video_metadata # after \<and>
          (\<forall>x \<in> set before. \<exists>u. py_get x ''entityUrn'' JNull = Inr u \<and> u \<noteq> JStr video_ref) \<and>
          py_get video_metadata ''entityUrn'' JNull = Inr (JStr video_ref) \<and>
          py_get video_metadata ''progressiveStreams'' (JArr []) = Inr (JArr streams) \<and>
          list_all2 stream_reads streams descr \<longrightarrow>
          extract_video_url item (JArr included) True =
            JStr (case filter (\<lambda>(w, h, u). u \<noteq> [] \<and> (w = 640 \<or> h = 640)) descr of
                    x # xs \<Rightarrow> snd (snd (last (x # xs)))
                  | [] \<Rightarrow>
                 (case filter (\<lambda>(w, h, u). u \<noteq> [] \<and> (w = 720 \<or> h = 720)) descr of
                    x # xs \<Rightarrow> snd (snd (last (x # xs)))
                  | [] \<Rightarrow>
                 (case filter (\<lambda>(w, h, u). u \<noteq> []) descr of
                    x # xs \<Rightarrow> snd (snd x)
                  | [] \<Rightarrow> []))))"
proof (intro conjI impI)
  assume "\<forall>x \<in> set included. \<exists>u. py_get x ''entityUrn'' JNull = Inr u \<and> u \<noteq> JStr video_ref"
  then have "find_video_metadata (JStr video_ref) included = Inr JNull"
    by (rule find_video_metadata_absent)
  then show "extract_video_url item (JArr included) True = JStr []"
    using assms by (simp add: extract_video_url_def)
next
  assume s: "included = before @ video_metadata # after \<and>
          (\<forall>x \<in> set before. \<exists>u. py_get x ''entityUrn'' JNull = Inr u \<and> u \<noteq> JStr video_ref) \<and>
          py_get video_metadata ''entityUrn'' JNull = Inr (JStr video_ref) \<and>
          py_get video_metadata ''progressiveStreams'' (JArr []) = Inr (JArr streams) \<and>
          list_all2 stream_reads streams descr"
  then have inc: "included = before @ video_metadata # after"
    and bef: "\<forall>x \<in> set before. \<exists>u. py_get x ''entityUrn'' JNull = Inr u \<and> u \<noteq> JStr video_ref"
    and urn: "py_get video_metadata ''entityUrn'' JNull = Inr (JStr video_ref)"
    and ps: "py_get video_metadata ''progressiveStreams'' (JArr []) = Inr (JArr streams)"
    and rd: "list_all2 stream_reads streams descr"
    by simp_all
  have fnd: "find_video_metadata (JStr video_ref) included = Inr video_metadata"
    unfolding inc using bef urn by (rule find_video_metadata_first)
  have tm: "truthy video_metadata"
    using urn by (rule entity_with_urn_truthy)
  have sc: "scan_streams streams (JStr [], JStr [], JStr []) =
           Inr (JStr (case filter (\<lambda>(w, h, u). u \<noteq> [] \<and> (w = 640 \<or> h = 640)) descr of
                        [] \<Rightarrow> [] | x # xs \<Rightarrow> snd (snd (last (x # xs)))),
                JStr (case filter (\<lambda>(w, h, u). u \<noteq> [] \<and> (w = 720 \<or> h = 720)) descr of
                        [] \<Rightarrow> [] | x # xs \<Rightarrow> snd (snd (last (x # xs)))),
                JStr (if [] \<noteq> ([] :: string) then []
                      else (case filter (\<lambda>(w, h, u). u \<noteq> []) descr of
                              [] \<Rightarrow> [] | x # xs \<Rightarrow> snd (snd x))))"
    using rd by (rule scan_streams_reads)
  show "extract_video_url item (JArr included) True =
            JStr (case filter (\<lambda>(w, h, u). u \<noteq> [] \<and> (w = 640 \<or> h = 640)) descr of
                    x # xs \<Rightarrow> snd (snd (last (x # xs)))
                  | [] \<Rightarrow>
                 (case filter (\<lambda>(w, h, u). u \<noteq> [] \<and> (w = 720 \<or> h = 720)) descr of
                    x # xs \<Rightarrow> snd (snd (last (x # xs)))
                  | [] \<Rightarrow>
                 (case filter (\<lambda>(w, h, u). u \<noteq> []) descr of
                    x # xs \<Rightarrow> snd (snd x)
                  | [] \<Rightarrow> [])))"
  proof (cases "streams = []")
    case True
    with rd have "descr = []" by simp
    with True ps fnd tm assms show ?thesis
      by (simp add: extract_video_url_def)
  next
    case False
    have "extract_video_url item (JArr included) True =
            py_or (py_or
              (JStr (case filter (\<lambda>(w, h, u). u \<noteq> [] \<and> (w = 640 \<or> h = 640)) descr of
                       [] \<Rightarrow> [] | x # xs \<Rightarrow> snd (snd (last (x # xs)))))
              (JStr (case filter (\<lambda>(w, h, u). u \<noteq> [] \<and> (w = 720 \<or> h = 720)) descr of
                       [] \<Rightarrow> [] | x # xs \<Rightarrow> snd (snd (last (x # xs))))))
            (JStr (case filter (\<lambda>(w, h, u). u \<noteq> []) descr of
                     [] \<Rightarrow> [] | x # xs \<Rightarrow> snd (snd x)))"
      using ps fnd tm assms False by (simp add: extract_video_url_def sc)
    then show ?thesis
      by (simp only: preferred_url)
  qed
qed

theorem extract_video_url_preference_witness:
  "extract_video_url (example_video_post ''urn:v'')
     (JArr [example_update ''urn:a'' ''first'',
            example_video_metadata ''urn:v''
              [example_stream 360 202 ''https://v/360'',
               example_stream 640 360 ''https://v/640'',
               example_stream 1280 720 ''https://v/720'']]) True = JStr ''https://v/640'' \<and>
   extract_video_url (example_video_post ''urn:v'')
     (JArr [example_update ''urn:a'' ''first'',
            example_video_metadata ''urn:v''
              [example_stream 360 202 ''https://v/360'',
               example_stream 1280 720 ''https://v/720'']]) True = JStr ''https://v/720'' \<and>
   extract_video_url (example_video_post ''urn:v'')
     (JArr [example_update ''urn:a'' ''first'',
            example_video_metadata ''urn:v''
              [example_stream 360 202 [],
               example_stream 480 270 ''https://v/480'',
               example_stream 240 134 ''https://v/240'']]) True = JStr ''https://v/480'' \<and>
   extract_video_url (example_video_post ''urn:v'')
     (JArr [example_update ''urn:a'' ''first'',
            example_video_metadata ''urn:v'' []]) True = JStr [] \<and>
   extract_video_url (example_video_post ''urn:v'')
     (JArr [example_update ''urn:a'' ''first'',
            example_video_metadata ''urn:w''
              [example_stream 640 360 ''https://w/640'']]) True = JStr []"
proof -
  let ?S1 = "[example_stream 360 202 ''https://v/360'',
              example_stream 640 360 ''https://v/640'',
              example_stream 1280 720 ''https://v/720'']"
  let ?D1 = "[(360 :: int, 202 :: int, ''https://v/360''),
              (640, 360, ''https://v/640''), (1280, 720, ''https://v/720'')]"
  let ?S2 = "[example_stream 360 202 ''https://v/360'',
              example_stream 1280 720 ''https://v/720'']"
  let ?D2 = "[(360 :: int, 202 :: int, ''https://v/360''), (1280, 720, ''https://v/720'')]"
  let ?S3 = "[example_stream 360 202 [],
              example_stream 480 270 ''https://v/480'',
              example_stream 240 134 ''https://v/240'']"
  let ?D3 = "[(360 :: int, 202 :: int, []),
              (480, 270, ''https://v/480''), (240, 134, ''https://v/240'')]"
  let ?S4 = "[] :: json list"
  let ?D4 = "[] :: (int \<times> int \<times> string) list"
  let ?B = "[example_update ''urn:a'' ''first'']"
  let ?I1 = "[example_update ''urn:a'' ''first'', example_video_metadata ''urn:v'' ?S1]"
  let ?I2 = "[example_update ''urn:a'' ''first'', example_video_metadata ''urn:v'' ?S2]"
  let ?I3 = "[example_update ''urn:a'' ''first'', example_video_metadata ''urn:v'' ?S3]"
  let ?I4 = "[example_update ''urn:a'' ''first'', example_video_metadata ''urn:v'' ?S4]"
  let ?I5 = "[example_update ''urn:a'' ''first'',
              example_video_metadata ''urn:w'' [example_stream 640 360 ''https://w/640'']]"
  have a: "((\<forall>x \<in> set ?I1. \<exists>u. py_get x ''entityUrn'' JNull = Inr u \<and> u \<noteq> JStr ''urn:v'') \<longrightarrow>
            extract_video_url (example_video_post ''urn:v'') (JArr ?I1) True = JStr []) \<and>
         (?I1 = ?B @ (example_video_metadata ''urn:v'' ?S1) # [] \<and>
          (\<forall>x \<in> set ?B. \<exists>u. py_get x ''entityUrn'' JNull = Inr u \<and> u \<noteq> JStr ''urn:v'') \<and>
          py_get (example_video_metadata ''urn:v'' ?S1) ''entityUrn'' JNull = Inr (JStr ''urn:v'') \<and>
          py_get (example_video_metadata ''urn:v'' ?S1) ''progressiveStreams'' (JArr []) = Inr (JArr ?S1) \<and>
          list_all2 stream_reads ?S1 ?D1 \<longrightarrow>
          extract_video_url (example_video_post ''urn:v'') (JArr ?I1) True =
            JStr (case filter (\<lambda>(w, h, u). u \<noteq> [] \<and> (w = 640 \<or> h = 640)) ?D1 of
                    x # xs \<Rightarrow> snd (snd (last (x # xs)))
                  | [] \<Rightarrow>
                 (case filter (\<lambda>(w, h, u). u \<noteq> [] \<and> (w = 720 \<or> h = 720)) ?D1 of
                    x # xs \<Rightarrow> snd (snd (last (x # xs)))
                  | [] \<Rightarrow>
                 (case filter (\<lambda>(w, h, u). u \<noteq> []) ?D1 of
                    x # xs \<Rightarrow> snd (snd x)
                  | [] \<Rightarrow> []))))"
    by (rule extract_video_url_preference
          [where content = "JObj [(''linkedInVideoComponent'',
                                   JObj [(''*videoPlayMetadata'', JStr ''urn:v'')])]"
             and video_component = "JObj [(''*videoPlayMetadata'', JStr ''urn:v'')]"])
       (simp_all add: example_video_post_def)
  have b: "((\<forall>x \<in> set ?I2. \<exists>u. py_get x ''entityUrn'' JNull = Inr u \<and> u \<noteq> JStr ''urn:v'') \<longrightarrow>
            extract_video_url (example_video_post ''urn:v'') (JArr ?I2) True = JStr []) \<and>
         (?I2 = ?B @ (example_video_metadata ''urn:v'' ?S2) # [] \<and>
          (\<forall>x \<in> set ?B. \<exists>u. py_get x ''entityUrn'' JNull = Inr u \<and> u \<noteq> JStr ''urn:v'') \<and>
          py_get (example_video_metadata ''urn:v'' ?S2) ''entityUrn'' JNull = Inr (JStr ''urn:v'') \<and>
          py_get (example_video_metadata ''urn:v'' ?S2) ''progressiveStreams'' (JArr []) = Inr (JArr ?S2) \<and>
          list_all2 stream_reads ?S2 ?D2 \<longrightarrow>
          extract_video_url (example_video_post ''urn:v'') (JArr ?I2) True =
            JStr (case filter (\<lambda>(w, h, u). u \<noteq> [] \<and> (w = 640 \<or> h = 640)) ?D2 of
                    x # xs \<Rightarrow> snd (snd (last (x # xs)))
                  | [] \<Rightarrow>
                 (case filter (\<lambda>(w, h, u). u \<noteq> [] \<and> (w = 720 \<or> h = 720)) ?D2 of
                    x # xs \<Rightarrow> snd (snd (last (x # xs)))
                  | [] \<Rightarrow>
                 (case filter (\<lambda>(w, h, u). u \<noteq> []) ?D2 of
                    x # xs \<Rightarrow> snd (snd x)
                  | [] \<Rightarrow> []))))"
    by (rule extract_video_url_preference
          [where content = "JObj [(''linkedInVideoComponent'',
                                   JObj [(''*videoPlayMetadata'', JStr ''urn:v'')])]"
             and video_component = "JObj [(''*videoPlayMetadata'', JStr ''urn:v'')]"])
       (simp_all add: example_video_post_def)
  have c: "((\<forall>x \<in> set ?I3. \<exists>u. py_get x ''entityUrn'' JNull = Inr u \<and> u \<noteq> JStr ''urn:v'') \<longrightarrow>
            extract_video_url (example_video_post ''urn:v'') (JArr ?I3) True = JStr []) \<and>
         (?I3 = ?B @ (example_video_metadata ''urn:v'' ?S3) # [] \<and>
          (\<forall>x \<in> set ?B. \<exists>u. py_get x ''entityUrn'' JNull = Inr u \<and> u \<noteq> JStr ''urn:v'') \<and>
          py_get (example_video_metadata ''urn:v'' ?S3) ''entityUrn'' JNull = Inr (JStr ''urn:v'') \<and>
          py_get (example_video_metadata ''urn:v'' ?S3) ''progressiveStreams'' (JArr []) = Inr (JArr ?S3) \<and>
          list_all2 stream_reads ?S3 ?D3 \<longrightarrow>
          extract_video_url (example_video_post ''urn:v'') (JArr ?I3) True =
            JStr (case filter (\<lambda>(w, h, u). u \<noteq> [] \<and> (w = 640 \<or> h = 640)) ?D3 of
                    x # xs \<Rightarrow> snd (snd (last (x # xs)))
                  | [] \<Rightarrow>
                 (case filter (\<lambda>(w, h, u). u \<noteq> [] \<and> (w = 720 \<or> h = 720)) ?D3 of
                    x # xs \<Rightarrow> snd (snd (last (x # xs)))
                  | [] \<Rightarrow>
                 (case filter (\<lambda>(w, h, u). u \<noteq> []) ?D3 of
                    x # xs \<Rightarrow> snd (snd x)
                  | [] \<Rightarrow> []))))"
    by (rule extract_video_url_preference
          [where content = "JObj [(''linkedInVideoComponent'',
                                   JObj [(''*videoPlayMetadata'', JStr ''urn:v'')])]"
             and video_component = "JObj [(''*videoPlayMetadata'', JStr ''urn:v'')]"])
       (simp_all add: example_video_post_def)
  have d: "((\<forall>x \<in> set ?I4. \<exists>u. py_get x ''entityUrn'' JNull = Inr u \<and> u \<noteq> JStr ''urn:v'') \<longrightarrow>
            extract_video_url (example_video_post ''urn:v'') (JArr ?I4) True = JStr []) \<and>
         (?I4 = ?B @ (example_video_metadata ''urn:v'' ?S4) # [] \<and>
          (\<forall>x \<in> set ?B. \<exists>u. py_get x ''entityUrn'' JNull = Inr u \<and> u \<noteq> JStr ''urn:v'') \<and>
          py_get (example_video_metadata ''urn:v'' ?S4) ''entityUrn'' JNull = Inr (JStr ''urn:v'') \<and>
          py_get (example_video_metadata ''urn:v'' ?S4) ''progressiveStreams'' (JArr []) = Inr (JArr ?S4) \<and>
          list_all2 stream_reads ?S4 ?D4 \<longrightarrow>
          extract_video_url (example_video_post ''urn:v'') (JArr ?I4) True =
            JStr (case filter (\<lambda>(w, h, u). u \<noteq> [] \<and> (w = 640 \<or> h = 640)) ?D4 of
                    x # xs \<Rightarrow> snd (snd (last (x # xs)))
                  | [] \<Rightarrow>
                 (case filter (\<lambda>(w, h, u). u \<noteq> [] \<and> (w = 720 \<or> h = 720)) ?D4 of
                    x # xs \<Rightarrow> snd (snd (last (x # xs)))
                  | [] \<Rightarrow>
                 (case filter (\<lambda>(w, h, u). u \<noteq> []) ?D4 of
                    x # xs \<Rightarrow> snd (snd x)
                  | [] \<Rightarrow> []))))"
    by (rule extract_video_url_preference
          [where content = "JObj [(''linkedInVideoComponent'',
                                   JObj [(''*videoPlayMetadata'', JStr ''urn:v'')])]"
             and video_component = "JObj [(''*videoPlayMetadata'', JStr ''urn:v'')]"])
       (simp_all add: example_video_post_def)
  have e: "((\<forall>x \<in> set ?I5. \<exists>u. py_get x ''entityUrn'' JNull = Inr u \<and> u \<noteq> JStr ''urn:v'') \<longrightarrow>
            extract_video_url (example_video_post ''urn:v'') (JArr ?I5) True = JStr []) \<and>
         (?I5 = ?B @ (example_video_metadata ''urn:w'' [example_stream 640 360 ''https://w/640'']) # [] \<and>
          (\<forall>x \<in> set ?B. \<exists>u. py_get x ''entityUrn'' JNull = Inr u \<and> u \<noteq> JStr ''urn:v'') \<and>
          py_get (example_video_metadata ''urn:w'' [example_stream 640 360 ''https://w/640'']) ''entityUrn'' JNull = Inr (JStr ''urn:v'') \<and>
          py_get (example_video_metadata ''urn:w'' [example_stream 640 360 ''https://w/640'']) ''progressiveStreams'' (JArr []) = Inr (JArr ?S4) \<and>
          list_all2 stream_reads ?S4 ?D4 \<longrightarrow>
          extract_video_url (example_video_post ''urn:v'') (JArr ?I5) True =
            JStr (case filter (\<lambda>(w, h, u). u \<noteq> [] \<and> (w = 640 \<or> h = 640)) ?D4 of
                    x # xs \<Rightarrow> snd (snd (last (x # xs)))
                  | [] \<Rightarrow>
                 (case filter (\<lambda>(w, h, u). u \<noteq> [] \<and> (w = 720 \<or> h = 720)) ?D4 of
                    x # xs \<Rightarrow> snd (snd (last (x # xs)))
                  | [] \<Rightarrow>
                 (case filter (\<lambda>(w, h, u). u \<noteq> []) ?D4 of
                    x # xs \<Rightarrow> snd (snd x)
                  | [] \<Rightarrow> []))))"
    by (rule extract_video_url_preference
          [where content = "JObj [(''linkedInVideoComponent'',
                                   JObj [(''*videoPlayMetadata'', JStr ''urn:v'')])]"
             and video_component = "JObj [(''*videoPlayMetadata'', JStr ''urn:v'')]"])
       (simp_all add: example_video_post_def)
  from a b c d e show ?thesis
    by (simp add: stream_reads_def example_stream_def example_video_metadata_def
        example_update_def)
qed

section \<open>The pagination run\<close>

lemma extract_pagination_token_path:
  assumes "py_get activity_data ''data'' (JObj []) = Inr data_outer"
    and "py_get data_outer ''data'' (JObj []) = Inr data_inner"
    and "py_get data_inner ''feedDashProfileUpdatesByMemberShareFeed'' (JObj []) = Inr feed"
    and "py_get feed ''metadata'' (JObj []) = Inr metadata"
    and "py_get metadata ''paginationToken'' JNull = Inr token"
  shows "extract_pagination_token activity_data =
           (if truthy token \<and> sliceable token then token else JNull)"
  using assms by (simp add: extract_pagination_token_def)

lemma save_posts_first_range:
  "save_posts e 0 posts = filter (\<lambda>p. save_individual_post e (post_order p)) posts"
  by (induction posts) (simp_all add: Let_def)

lemma process_first_range:
  "process_posts_from_files e [((0, 20), activity_data)] =
     (length (filter (\<lambda>p. save_individual_post e (post_order p))
                (extract_posts_from_response activity_data)),
      filter (\<lambda>p. save_individual_post e (post_order p))
        (extract_posts_from_response activity_data))"
  by (simp add: process_posts_from_files_def range_start_of_def Let_def save_posts_first_range)

lemma process_no_range: "process_posts_from_files e [] = (0, [])"
  by (simp add: process_posts_from_files_def)

text \<open>
  C4, as the code has it. In a run with a target above 20 that reaches the fetch loop
  (Playwright started, login succeeded, profile resolved, session directory created), when
  the response for page 1 is a non-empty body whose \<^verbatim>\<open>paginationToken\<close> is missing or empty,
  no further page is requested and the run returns success with no error. The page is
  processed and counted (one range fetched) when its range file was written, and its posts
  are those whose post file was written; when the range file was not written, nothing is
  processed and no range is counted.
\<close>

theorem run_scrape_token_absent:
  assumes "start_playwright e" and "login_to_linkedin e" and "target_username \<noteq> []"
    and "truthy (extract_profile_urn e target_username)"
    and "20 < target_range"
    and "make_session_dir e"
    and "fetch_profile_activity e (extract_profile_urn e target_username) 20 0 JNull =
           activity_data"
    and "truthy activity_data"
    and "py_get activity_data ''data'' (JObj []) = Inr data_outer"
    and "py_get data_outer ''data'' (JObj []) = Inr data_inner"
    and "py_get data_inner ''feedDashProfileUpdatesByMemberShareFeed'' (JObj []) = Inr feed"
    and "py_get feed ''metadata'' (JObj []) = Inr metadata"
    and "py_get metadata ''paginationToken'' JNull = Inr token"
    and "\<not> truthy token"
  shows "run_scrape e target_username target_range =
           \<lparr> success = True, error = None,
             ranges_fetched = (if save_activity_data e (0, 20) then 1 else 0),
             total_posts =
               (if save_activity_data e (0, 20)
                then length (filter (\<lambda>p. save_individual_post e (post_order p))
                               (extract_posts_from_response activity_data))
                else 0),
             all_posts =
               (if save_activity_data e (0, 20)
                then filter (\<lambda>p. save_individual_post e (post_order p))
                       (extract_posts_from_response activity_data)
                else []) \<rparr>"
proof -
  obtain r rest where pr: "parse_ranges target_range = (0, 20) # r # rest"
    using parse_ranges_multi [OF assms(5)] by blast
  have tok: "extract_pagination_token activity_data = JNull"
    using extract_pagination_token_path [OF assms(9-13)] assms(14) by simp
  have fl: "fetch_loop e (extract_profile_urn e target_username)
              (length (parse_ranges target_range)) 1 JNull [] (parse_ranges target_range) =
            (if save_activity_data e (0, 20) then [((0, 20), activity_data)] else [])"
    using assms(7,8) by (simp add: pr tok Let_def)
  have ne: "parse_ranges target_range \<noteq> []"
    by (simp add: pr)
  show ?thesis
    unfolding run_scrape_def Let_def fl
    using assms(1-4,6) ne by (simp add: process_first_range process_no_range)
qed

theorem run_scrape_token_absent_witness:
  "run_scrape no_token_env ''alice'' 60 =
     \<lparr> success = True, error = None, ranges_fetched = 1, total_posts = 2,
       all_posts = extract_posts_from_response (two_posts JNull) \<rparr>"
proof -
  have e: "run_scrape no_token_env ''alice'' 60 =
           \<lparr> success = True, error = None,
             ranges_fetched = (if save_activity_data no_token_env (0, 20) then 1 else 0),
             total_posts =
               (if save_activity_data no_token_env (0, 20)
                then length (filter (\<lambda>p. save_individual_post no_token_env (post_order p))
                               (extract_posts_from_response (two_posts JNull)))
                else 0),
             all_posts =
               (if save_activity_data no_token_env (0, 20)
                then filter (\<lambda>p. save_individual_post no_token_env (post_order p))
                       (extract_posts_from_response (two_posts JNull))
                else []) \<rparr>"
    by (rule run_scrape_token_absent
          [where data_outer = "JObj [(''data'', JObj [(''feedDashProfileUpdatesByMemberShareFeed'',
                    JObj [(''*elements'', JArr [JStr ''urn:a'', JStr ''urn:b'']),
                          (''metadata'', JObj [(''paginationToken'', JNull)])])])]"
             and data_inner = "JObj [(''feedDashProfileUpdatesByMemberShareFeed'',
                    JObj [(''*elements'', JArr [JStr ''urn:a'', JStr ''urn:b'']),
                          (''metadata'', JObj [(''paginationToken'', JNull)])])]"
             and feed = "JObj [(''*elements'', JArr [JStr ''urn:a'', JStr ''urn:b'']),
                          (''metadata'', JObj [(''paginationToken'', JNull)])]"
             and metadata = "JObj [(''paginationToken'', JNull)]"
             and token = JNull])
       (simp_all add: no_token_env_def example_env_def two_posts_def example_page_def)
  show ?thesis
    by (subst e) (simp add: no_token_env_def example_env_def posts_two_posts)
qed

text \<open>
  C4 as stated fails: the first page is answered with two posts and no token, but its range
  file cannot be written; the run succeeds with no range counted and no post processed.
\<close>

theorem run_scrape_token_absent_counterexample:
  "fetch_profile_activity no_token_unsaved_env
     (extract_profile_urn no_token_unsaved_env ''alice'') 20 0 JNull = two_posts JNull \<and>
   extract_pagination_token (two_posts JNull) = JNull \<and>
   length (extract_posts_from_response (two_posts JNull)) = 2 \<and>
   success (run_scrape no_token_unsaved_env ''alice'' 60) \<and>
   ranges_fetched (run_scrape no_token_unsaved_env ''alice'' 60) = 0 \<and>
   all_posts (run_scrape no_token_unsaved_env ''alice'' 60) = []"
proof -
  have r: "run_scrape no_token_unsaved_env ''alice'' 60 =
           \<lparr> success = True, error = None, ranges_fetched = 0, total_posts = 0,
             all_posts = [] \<rparr>"
    by (simp add: run_scrape_def Let_def parse_ranges_60 no_token_unsaved_env_def
        no_token_env_def example_env_def token_two_posts truthy_two_posts process_no_range)
  show ?thesis
    by (simp add: r token_two_posts posts_two_posts)
       (simp add: no_token_unsaved_env_def no_token_env_def example_env_def)
qed

text \<open>
  C3, as the code has it. In a run with a target above 40 and at most 60 (three ranges)
  that reaches the fetch loop, when page 1 is answered with a non-empty body that carries a
  token and the fetch of page 2 returns nothing, the loop stops at once and the run returns
  success with no error: the failure is only printed. The posts of page 1 are processed and
  retained when the range file of page 1 was written (one range fetched), namely those
  whose post file was written, numbered as in the page; when the range file was not
  written, nothing is retained and no range is counted.
\<close>

theorem run_scrape_fetch_failure_page2:
  assumes "start_playwright e" and "login_to_linkedin e" and "target_username \<noteq> []"
    and "truthy (extract_profile_urn e target_username)"
    and "40 < target_range" and "target_range \<le> 60"
    and "make_session_dir e"
    and "fetch_profile_activity e (extract_profile_urn e target_username) 20 0 JNull = page_one"
    and "truthy page_one"
    and "py_get page_one ''data'' (JObj []) = Inr data_outer"
    and "py_get data_outer ''data'' (JObj []) = Inr data_inner"
    and "py_get data_inner ''feedDashProfileUpdatesByMemberShareFeed'' (JObj []) = Inr feed"
    and "py_get feed ''metadata'' (JObj []) = Inr metadata"
    and "py_get metadata ''paginationToken'' JNull = Inr (JStr token)"
    and "token \<noteq> []"
    and "\<not> truthy (fetch_profile_activity e (extract_profile_urn e target_username) 20 20
               (JStr token))"
  shows "run_scrape e target_username target_range =
           \<lparr> success = True, error = None,
             ranges_fetched = (if save_activity_data e (0, 20) then 1 else 0),
             total_posts =
               (if save_activity_data e (0, 20)
                then length (filter (\<lambda>p. save_individual_post e (post_order p))
                               (extract_posts_from_response page_one))
                else 0),
             all_posts =
               (if save_activity_data e (0, 20)
                then filter (\<lambda>p. save_individual_post e (post_order p))
                       (extract_posts_from_response page_one)
                else []) \<rparr>"
proof -
  have pr: "parse_ranges target_range = [(0, 20), (20, 40), (40, target_range)]"
    using assms(5,6) by (rule parse_ranges_three)
  have tok: "extract_pagination_token page_one = JStr token"
    using extract_pagination_token_path [OF assms(10-14)] assms(15) by simp
  have fl: "fetch_loop e (extract_profile_urn e target_username)
              (length (parse_ranges target_range)) 1 JNull [] (parse_ranges target_range) =
            (if save_activity_data e (0, 20) then [((0, 20), page_one)] else [])"
    using assms(8,9,15,16) by (simp add: pr tok Let_def)
  have ne: "parse_ranges target_range \<noteq> []"
    by (simp add: pr)
  show ?thesis
    unfolding run_scrape_def Let_def fl
    using assms(1-4,7) ne by (simp add: process_first_range process_no_range)
qed

theorem run_scrape_fetch_failure_page2_witness:
  "run_scrape page2_fails_env ''alice'' 60 =
     \<lparr> success = True, error = None, ranges_fetched = 1, total_posts = 2,
       all_posts = extract_posts_from_response (two_posts (JStr ''t1'')) \<rparr>"
proof -
  have e: "run_scrape page2_fails_env ''alice'' 60 =
           \<lparr> success = True, error = None,
             ranges_fetched = (if save_activity_data page2_fails_env (0, 20) then 1 else 0),
             total_posts =
               (if save_activity_data page2_fails_env (0, 20)
                then length (filter (\<lambda>p. save_individual_post page2_fails_env (post_order p))
                               (extract_posts_from_response (two_posts (JStr ''t1''))))
                else 0),
             all_posts =
               (if save_activity_data page2_fails_env (0, 20)
                then filter (\<lambda>p. save_individual_post page2_fails_env (post_order p))
                       (extract_posts_from_response (two_posts (JStr ''t1'')))
                else []) \<rparr>"
    by (rule run_scrape_fetch_failure_page2
          [where data_outer = "JObj [(''data'', JObj [(''feedDashProfileUpdatesByMemberShareFeed'',
                    JObj [(''*elements'', JArr [JStr ''urn:a'', JStr ''urn:b'']),
                          (''metadata'', JObj [(''paginationToken'', JStr ''t1'')])])])]"
             and data_inner = "JObj [(''feedDashProfileUpdatesByMemberShareFeed'',
                    JObj [(''*elements'', JArr [JStr ''urn:a'', JStr ''urn:b'']),
                          (''metadata'', JObj [(''paginationToken'', JStr ''t1'')])])]"
             and feed = "JObj [(''*elements'', JArr [JStr ''urn:a'', JStr ''urn:b'']),
                          (''metadata'', JObj [(''paginationToken'', JStr ''t1'')])]"
             and metadata = "JObj [(''paginationToken'', JStr ''t1'')]"
             and token = "''t1''"])
       (simp_all add: page2_fails_env_def example_env_def two_posts_def example_page_def)
  show ?thesis
    by (subst e) (simp add: page2_fails_env_def example_env_def posts_two_posts)
qed

text \<open>
  C3 as stated fails: on a server that answers the first of three requests and fails the
  second, the run keeps the two posts of page 1 and reports success with no error.
\<close>

theorem run_scrape_fetch_failure_counterexample:
  "length (parse_ranges 60) = 3 \<and>
   fetch_profile_activity page2_fails_env
     (extract_profile_urn page2_fails_env ''alice'') 20 20 (JStr ''t1'') = JNull \<and>
   success (run_scrape page2_fails_env ''alice'' 60) = True \<and>
   error (run_scrape page2_fails_env ''alice'' 60) = None \<and>
   map post_text (all_posts (run_scrape page2_fails_env ''alice'' 60)) =
     [JStr ''first'', JStr ''second'']"
proof -
  have r: "run_scrape page2_fails_env ''alice'' 60 =
           \<lparr> success = True, error = None, ranges_fetched = 1, total_posts = 2,
             all_posts = extract_posts_from_response (two_posts (JStr ''t1'')) \<rparr>"
    by (simp add: run_scrape_def Let_def parse_ranges_60 page2_fails_env_def
        example_env_def token_two_posts truthy_two_posts process_first_range posts_two_posts)
  show ?thesis
    by (simp add: r parse_ranges_60 posts_two_posts)
       (simp add: page2_fails_env_def example_env_def)
qed

section \<open>Extraction of the posts of a page\<close>

lemma py_bind_eq_Inr: "py_bind m f = Inr y \<longleftrightarrow> (\<exists>x. m = Inr x \<and> f x = Inr y)"
  by (cases m) simp_all


lemma py_get_ok: "is_ok (py_get v k d) \<longleftrightarrow> is_dict v"
  by (cases v) simp_all






lemma post_info_of_index:
  assumes "post_info_of item included idx = Inr p"
  shows "post_info_of item included idx' = Inr (p\<lparr>post_order := idx'\<rparr>)"
  using assms by (auto simp: post_info_of_def py_bind_eq_Inr)



















section \<open>Global post numbers\<close>












end
